theory Spec2Isabelle
  imports Main "HOL-Library.Sublist"
begin

section \<open>Data model of the Key Manager\<close>

text \<open>
  The embedding follows \<^verbatim>\<open>src/leap/keymanager/__init__.py\<close>. The class \<^verbatim>\<open>KeyManager\<close>
  is a record of its attributes; its collaborators (the scheme registered for a key class,
  the Soledad document store, the \<^verbatim>\<open>requests\<close> module) are records of functions, since
  their code is not part of the file. Every method takes the world (the contents of the local
  store and the log of calls made to the collaborators) and returns it together with either
  the raised exception or the returned value.
\<close>

type_synonym address = string
type_synonym uri = string

text \<open>Key classes: \<^verbatim>\<open>OpenPGPKey\<close>, and any other subclass of \<^verbatim>\<open>EncryptionKey\<close>, by name.\<close>

datatype key_class = OpenPGPKey | OtherKeyClass string

text \<open>\<^verbatim>\<open>str(klass)\<close> for a new-style class.\<close>

fun class_str :: "key_class \<Rightarrow> string" where
  "class_str OpenPGPKey = ''<class 'leap.keymanager.openpgp.OpenPGPKey'>''"
| "class_str (OtherKeyClass n) = ''<class '' @ [CHR 0x27] @ n @ [CHR 0x27] @ ''>''"

text \<open>
  The attributes of an \<^verbatim>\<open>EncryptionKey\<close> that the Key Manager reads; \<open>is_private\<close> is
  the attribute \<^verbatim>\<open>private\<close>.
\<close>

record EncryptionKey =
  key_class :: key_class
  address :: address
  key_data :: string
  is_private :: bool

text \<open>A decoded JSON value, as \<^verbatim>\<open>Response.json()\<close> returns it.\<close>

datatype json =
    JObject "(string \<times> json) list"
  | JArray "json list"
  | JString string
  | JNumber int
  | JBool bool
  | JNull

text \<open>The exceptions that can leave a method of the Key Manager.\<close>

datatype error =
    KeyNotFound string
  | AssertionError string
  | HTTPError nat
  | RequestException string
  | ValueError
  | TypeError
  | KeyError string
  | IndexError
  | SchemeError string

text \<open>
  A \<^verbatim>\<open>requests.Response\<close>: the status code, the \<^verbatim>\<open>content-type\<close> header when there is
  one, and the decoded body (\<open>None\<close> when the body is not JSON, where \<^verbatim>\<open>json()\<close> raises).
\<close>

record Response =
  status_code :: nat
  content_type :: "string option"
  body :: "json option"

text \<open>
  The \<^verbatim>\<open>requests\<close> module as the Key Manager uses it: \<^verbatim>\<open>get(uri, data=, verify=)\<close> and
  \<^verbatim>\<open>put(uri, data=, verify=, cookies=)\<close>. Either raises (connection or certificate failure)
  or returns a response.
\<close>

record fetcher =
  http_get :: "uri \<Rightarrow> (string \<times> string) list \<Rightarrow> string \<Rightarrow> error + Response"
  http_put :: "uri \<Rightarrow> (string \<times> string) list \<Rightarrow> string \<Rightarrow> (string \<times> string) list
                 \<Rightarrow> error + Response"

text \<open>
  The scheme (backend) registered for a key class, over a local store of type \<open>'s\<close>. A lookup
  and the four cryptographic operations read the store; importing and generating keys may
  change it, also when they raise.
\<close>

record 's scheme =
  scheme_get_key :: "'s \<Rightarrow> address \<Rightarrow> bool \<Rightarrow> error + EncryptionKey"
  scheme_put_ascii_key :: "'s \<Rightarrow> json \<Rightarrow> (error + unit) \<times> 's"
  scheme_gen_key :: "'s \<Rightarrow> address \<Rightarrow> (error + EncryptionKey) \<times> 's"
  scheme_encrypt :: "string \<Rightarrow> EncryptionKey \<Rightarrow> string option \<Rightarrow> EncryptionKey option
                       \<Rightarrow> error + string"
  scheme_decrypt :: "string \<Rightarrow> EncryptionKey \<Rightarrow> string option \<Rightarrow> EncryptionKey option
                       \<Rightarrow> error + string"
  scheme_sign :: "string \<Rightarrow> EncryptionKey \<Rightarrow> error + string"
  scheme_verify :: "string \<Rightarrow> EncryptionKey \<Rightarrow> error + bool"

text \<open>A Soledad document and the one query of Soledad that the Key Manager makes.\<close>

record document =
  content :: "(string \<times> string) list"

record 's soledad =
  get_from_index :: "'s \<Rightarrow> string \<Rightarrow> string list \<Rightarrow> document list"

text \<open>
  The names imported from \<^verbatim>\<open>leap.keymanager.keys\<close>, whose code is not part of the file:
  they are parameters of the methods that use them.
\<close>

record keys_module =
  build_key_from_dict :: "key_class \<Rightarrow> address \<Rightarrow> (string \<times> string) list
                            \<Rightarrow> error + EncryptionKey"
  KEYMANAGER_KEY_TAG :: string
  TAGS_PRIVATE_INDEX :: string

text \<open>The attributes of a \<^verbatim>\<open>KeyManager\<close>; \<open>None\<close> is Python's \<^verbatim>\<open>None\<close>.\<close>

record 's KeyManager =
  km_address :: address
  km_nickserver_uri :: uri
  km_soledad :: "'s soledad"
  km_session_id :: "string option"
  km_ca_cert_path :: "string option"
  km_api_uri :: "string option"
  km_api_version :: "string option"
  km_uid :: "string option"
  km_wrapper_map :: "(key_class \<times> 's scheme) list"
  km_fetcher :: fetcher

text \<open>
  \<^verbatim>\<open>__init__\<close>: the registry holds the OpenPGP scheme only. The scheme is built by
  \<^verbatim>\<open>OpenPGPScheme(soledad, gpgbinary=gpgbinary)\<close>, which is outside the file, so the built
  scheme is the argument.
\<close>

definition KeyManager_init ::
  "address \<Rightarrow> uri \<Rightarrow> 's soledad \<Rightarrow> string option \<Rightarrow> string option \<Rightarrow> string option
     \<Rightarrow> string option \<Rightarrow> string option \<Rightarrow> 's scheme \<Rightarrow> fetcher \<Rightarrow> 's KeyManager" where
  "KeyManager_init addr nickserver sol session_id ca_cert_path api_uri api_version uid
       openpgp_scheme requests =
     \<lparr> km_address = addr, km_nickserver_uri = nickserver, km_soledad = sol,
       km_session_id = session_id, km_ca_cert_path = ca_cert_path, km_api_uri = api_uri,
       km_api_version = api_version, km_uid = uid,
       km_wrapper_map = [(OpenPGPKey, openpgp_scheme)], km_fetcher = requests \<rparr>"

definition OPENPGP_KEY :: string where
  "OPENPGP_KEY = ''openpgp''"

definition PUBKEY_KEY :: string where
  "PUBKEY_KEY = ''user[public_key]''"

subsection \<open>The world: local store and log of calls\<close>

datatype crypto_op = Encrypt | Decrypt | Sign | Verify

text \<open>One event per call that leaves the Key Manager, in the order the calls are made.\<close>

datatype event =
    SchemeGetKey key_class address bool
  | SchemePutAsciiKey key_class json
  | SchemeGenKey key_class address
  | SchemeCrypto crypto_op key_class EncryptionKey
  | SoledadGetFromIndex string "string list"
  | HttpGet uri "(string \<times> string) list" string
  | HttpPut uri "(string \<times> string) list" string "(string \<times> string) list"

record 's world =
  store :: 's
  trace :: "event list"

definition log :: "event \<Rightarrow> 's world \<Rightarrow> 's world" where
  "log e w = w\<lparr>trace := trace w @ [e]\<rparr>"

fun is_network :: "event \<Rightarrow> bool" where
  "is_network (HttpGet u d v) = True"
| "is_network (HttpPut u d v c) = True"
| "is_network e = False"

text \<open>The network calls of a log, and the request data of its GET requests.\<close>

definition network_calls :: "event list \<Rightarrow> event list" where
  "network_calls evs = filter is_network evs"

fun get_requests :: "event list \<Rightarrow> (string \<times> string) list list" where
  "get_requests [] = []"
| "get_requests (HttpGet u d v # evs) = d # get_requests evs"
| "get_requests (e # evs) = get_requests evs"

subsection \<open>Python and library operations\<close>

text \<open>
  \<^verbatim>\<open>Response.raise_for_status()\<close> of \<^verbatim>\<open>requests\<close> raises \<^verbatim>\<open>HTTPError\<close> for a client
  error (4xx) and for a server error (5xx), and returns for every other status code.
\<close>

definition raise_for_status :: "Response \<Rightarrow> error option" where
  "raise_for_status res =
     (if 400 \<le> status_code res \<and> status_code res < 600
      then Some (HTTPError (status_code res)) else None)"

text \<open>\<^verbatim>\<open>k in v\<close>: keys of a dict, elements of a list, substrings of a string.\<close>

fun py_contains :: "json \<Rightarrow> string \<Rightarrow> error + bool" where
  "py_contains (JObject kvs) k = Inr (map_of kvs k \<noteq> None)"
| "py_contains (JArray xs) k = Inr (JString k \<in> set xs)"
| "py_contains (JString s) k = Inr (sublist k s)"
| "py_contains (JNumber n) k = Inl TypeError"
| "py_contains (JBool b) k = Inl TypeError"
| "py_contains JNull k = Inl TypeError"

text \<open>\<^verbatim>\<open>v[k]\<close> for a string \<open>k\<close>.\<close>

fun py_getitem :: "json \<Rightarrow> string \<Rightarrow> error + json" where
  "py_getitem (JObject kvs) k =
     (case map_of kvs k of None \<Rightarrow> Inl (KeyError k) | Some v \<Rightarrow> Inr v)"
| "py_getitem v k = Inl TypeError"

text \<open>\<^verbatim>\<open>d[k]\<close> for a document's content.\<close>

definition dict_getitem :: "(string \<times> string) list \<Rightarrow> string \<Rightarrow> error + string" where
  "dict_getitem d k = (case map_of d k of None \<Rightarrow> Inl (KeyError k) | Some v \<Rightarrow> Inr v)"

text \<open>\<^verbatim>\<open>'%s' % x\<close> for an attribute that may be \<^verbatim>\<open>None\<close>.\<close>

fun py_str :: "string option \<Rightarrow> string" where
  "py_str None = ''None''"
| "py_str (Some s) = s"

text \<open>Python 2's \<^verbatim>\<open>map\<close>: applied from the left, the first exception ends it.\<close>

fun map_raise :: "('a \<Rightarrow> error + 'b) \<Rightarrow> 'a list \<Rightarrow> error + 'b list" where
  "map_raise f [] = Inr []"
| "map_raise f (x # xs) =
     (case f x of
        Inl e \<Rightarrow> Inl e
      | Inr y \<Rightarrow> (case map_raise f xs of Inl e \<Rightarrow> Inl e | Inr ys \<Rightarrow> Inr (y # ys)))"

section \<open>The methods of the Key Manager\<close>

subsection \<open>Utilities\<close>

text \<open>\<^verbatim>\<open>_key_class_from_type\<close>: \<^verbatim>\<open>pop()\<close> takes the last match and raises on no match.\<close>

definition key_class_from_type :: "'s KeyManager \<Rightarrow> string \<Rightarrow> error + key_class" where
  "key_class_from_type km ktype =
     (case filter (\<lambda>klass. class_str klass = ktype) (map fst (km_wrapper_map km)) of
        [] \<Rightarrow> Inl IndexError
      | k # ks \<Rightarrow> Inr (last (k # ks)))"

text \<open>\<^verbatim>\<open>_get\<close>.\<close>

definition KeyManager_get ::
  "'s KeyManager \<Rightarrow> uri \<Rightarrow> (string \<times> string) list \<Rightarrow> 's world
     \<Rightarrow> (error + Response) \<times> 's world" where
  "KeyManager_get km uri data w =
     (case km_ca_cert_path km of
        None \<Rightarrow> (Inl (AssertionError ''We need the CA certificate path!''), w)
      | Some ca \<Rightarrow>
          (let w1 = log (HttpGet uri data ca) w in
           case http_get (km_fetcher km) uri data ca of
             Inl e \<Rightarrow> (Inl e, w1)
           | Inr res \<Rightarrow>
               (case raise_for_status res of
                  Some e \<Rightarrow> (Inl e, w1)
                | None \<Rightarrow>
                    (case content_type res of
                       None \<Rightarrow> (Inl (KeyError ''content-type''), w1)
                     | Some ct \<Rightarrow>
                         if prefix ''application/json'' ct then (Inr res, w1)
                         else (Inl (AssertionError ''Content-type is not JSON.''), w1)))))"

text \<open>\<^verbatim>\<open>_put\<close>.\<close>

definition KeyManager_put ::
  "'s KeyManager \<Rightarrow> uri \<Rightarrow> (string \<times> string) list \<Rightarrow> 's world
     \<Rightarrow> (error + Response) \<times> 's world" where
  "KeyManager_put km uri data w =
     (case km_ca_cert_path km of
        None \<Rightarrow> (Inl (AssertionError ''We need the CA certificate path!''), w)
      | Some ca \<Rightarrow>
          (case km_session_id km of
             None \<Rightarrow> (Inl (AssertionError ''We need a session_id to interact with webapp!''), w)
           | Some sid \<Rightarrow>
               (let w1 = log (HttpPut uri data ca [(''_session_id'', sid)]) w in
                case http_put (km_fetcher km) uri data ca [(''_session_id'', sid)] of
                  Inl e \<Rightarrow> (Inl e, w1)
                | Inr res \<Rightarrow>
                    (case raise_for_status res of
                       Some e \<Rightarrow> (Inl e, w1)
                     | None \<Rightarrow> (Inr res, w1)))))"

text \<open>\<^verbatim>\<open>_fetch_keys_from_server\<close>.\<close>

definition fetch_keys_from_server ::
  "'s KeyManager \<Rightarrow> address \<Rightarrow> 's world \<Rightarrow> (error + unit) \<times> 's world" where
  "fetch_keys_from_server km addr w =
     (case KeyManager_get km (km_nickserver_uri km) [(''address'', addr)] w of
        (Inl e, w1) \<Rightarrow> (Inl e, w1)
      | (Inr res, w1) \<Rightarrow>
          (case body res of
             None \<Rightarrow> (Inl ValueError, w1)
           | Some server_keys \<Rightarrow>
               (case py_contains server_keys OPENPGP_KEY of
                  Inl e \<Rightarrow> (Inl e, w1)
                | Inr False \<Rightarrow> (Inr (), w1)
                | Inr True \<Rightarrow>
                    (case map_of (km_wrapper_map km) OpenPGPKey of
                       None \<Rightarrow> (Inl (KeyError (class_str OpenPGPKey)), w1)
                     | Some sch \<Rightarrow>
                         (case py_getitem server_keys ''openpgp'' of
                            Inl e \<Rightarrow> (Inl e, w1)
                          | Inr material \<Rightarrow>
                              (let w2 = log (SchemePutAsciiKey OpenPGPKey material) w1;
                                   (r, s') = scheme_put_ascii_key sch (store w2) material
                               in (r, w2\<lparr>store := s'\<rparr>)))))))"

subsection \<open>Key management\<close>

text \<open>\<^verbatim>\<open>get_key\<close>. Only \<^verbatim>\<open>KeyNotFound\<close> is caught; any other exception of the lookup leaves.\<close>

definition get_key ::
  "'s KeyManager \<Rightarrow> address \<Rightarrow> key_class \<Rightarrow> bool \<Rightarrow> bool \<Rightarrow> 's world
     \<Rightarrow> (error + EncryptionKey) \<times> 's world" where
  "get_key km addr ktype priv fetch_remote w =
     (case map_of (km_wrapper_map km) ktype of
        None \<Rightarrow> (Inl (AssertionError (''Unkown key type: '' @ class_str ktype @ ''.'')), w)
      | Some sch \<Rightarrow>
          (let w1 = log (SchemeGetKey ktype addr priv) w in
           case scheme_get_key sch (store w1) addr priv of
             Inr k \<Rightarrow> (Inr k, w1)
           | Inl (KeyNotFound a) \<Rightarrow>
               if \<not> fetch_remote \<or> priv then (Inl (KeyNotFound a), w1)
               else
                 (case fetch_keys_from_server km addr w1 of
                    (Inl e, w2) \<Rightarrow> (Inl e, w2)
                  | (Inr u, w2) \<Rightarrow>
                      (scheme_get_key sch (store w2) addr False,
                       log (SchemeGetKey ktype addr False) w2))
           | Inl e \<Rightarrow> (Inl e, w1)))"

text \<open>\<^verbatim>\<open>send_key\<close>.\<close>

definition send_key ::
  "'s KeyManager \<Rightarrow> key_class \<Rightarrow> 's world \<Rightarrow> (error + unit) \<times> 's world" where
  "send_key km ktype w =
     (if ktype \<noteq> OpenPGPKey
      then (Inl (AssertionError ''For now we only know how to send OpenPGP public keys.''), w)
      else
        (case get_key km (km_address km) ktype False False w of
           (Inl e, w1) \<Rightarrow> (Inl e, w1)
         | (Inr pubkey, w1) \<Rightarrow>
             (let data = [(PUBKEY_KEY, key_data pubkey)];
                  uri = py_str (km_api_uri km) @ ''/'' @ py_str (km_api_version km)
                          @ ''/users/'' @ py_str (km_uid km) @ ''.json''
              in case KeyManager_put km uri data w1 of
                   (Inl e, w2) \<Rightarrow> (Inl e, w2)
                 | (Inr res, w2) \<Rightarrow> (Inr (), w2))))"

text \<open>\<^verbatim>\<open>get_all_keys_in_local_db\<close>.\<close>

definition get_all_keys_in_local_db ::
  "keys_module \<Rightarrow> 's KeyManager \<Rightarrow> bool \<Rightarrow> 's world
     \<Rightarrow> (error + EncryptionKey list) \<times> 's world" where
  "get_all_keys_in_local_db K km priv w =
     (let args = [KEYMANAGER_KEY_TAG K, if priv then ''1'' else ''0''];
          w1 = log (SoledadGetFromIndex (TAGS_PRIVATE_INDEX K) args) w;
          docs = get_from_index (km_soledad km) (store w1) (TAGS_PRIVATE_INDEX K) args
      in (map_raise
            (\<lambda>doc.
               case dict_getitem (content doc) ''type'' of
                 Inl e \<Rightarrow> Inl e
               | Inr t \<Rightarrow>
                   (case key_class_from_type km t of
                      Inl e \<Rightarrow> Inl e
                    | Inr klass \<Rightarrow>
                        (case dict_getitem (content doc) ''address'' of
                           Inl e \<Rightarrow> Inl e
                         | Inr a \<Rightarrow> build_key_from_dict K klass a (content doc))))
            docs,
          w1))"

text \<open>The loop of \<^verbatim>\<open>refresh_keys\<close> over the addresses, in the order of iteration.\<close>

fun refresh_loop ::
  "'s KeyManager \<Rightarrow> address list \<Rightarrow> 's world \<Rightarrow> (error + unit) \<times> 's world" where
  "refresh_loop km [] w = (Inr (), w)"
| "refresh_loop km (a # as) w =
     (if a = km_address km then refresh_loop km as w
      else
        (case fetch_keys_from_server km a w of
           (Inl e, w1) \<Rightarrow> (Inl e, w1)
         | (Inr u, w1) \<Rightarrow> refresh_loop km as w1))"

text \<open>
  \<^verbatim>\<open>refresh_keys\<close>. The order in which Python iterates over \<^verbatim>\<open>set(...)\<close> is not fixed by
  the language: \<open>iter\<close> gives the order, for the list the set is built from.
\<close>

definition refresh_keys ::
  "(address list \<Rightarrow> address list) \<Rightarrow> keys_module \<Rightarrow> 's KeyManager \<Rightarrow> 's world
     \<Rightarrow> (error + unit) \<times> 's world" where
  "refresh_keys iter K km w =
     (case get_all_keys_in_local_db K km False w of
        (Inl e, w1) \<Rightarrow> (Inl e, w1)
      | (Inr keys, w1) \<Rightarrow> refresh_loop km (iter (map address keys)) w1)"

text \<open>An order of iteration is an enumeration of the set without repetition.\<close>

definition set_iteration :: "(address list \<Rightarrow> address list) \<Rightarrow> address list \<Rightarrow> bool" where
  "set_iteration iter xs = (distinct (iter xs) \<and> set (iter xs) = set xs)"

text \<open>\<^verbatim>\<open>gen_key\<close>.\<close>

definition gen_key ::
  "'s KeyManager \<Rightarrow> key_class \<Rightarrow> 's world \<Rightarrow> (error + EncryptionKey) \<times> 's world" where
  "gen_key km ktype w =
     (case map_of (km_wrapper_map km) ktype of
        None \<Rightarrow> (Inl (KeyError (class_str ktype)), w)
      | Some sch \<Rightarrow>
          (let w1 = log (SchemeGenKey ktype (km_address km)) w;
               (r, s') = scheme_gen_key sch (store w1) (km_address km)
           in (r, w1\<lparr>store := s'\<rparr>)))"

subsection \<open>The encrypt/decrypt and sign/verify API\<close>

text \<open>
  \<^verbatim>\<open>leap_assert_type(key, EncryptionKey)\<close> holds of every value of type \<open>EncryptionKey\<close>.
\<close>

definition encrypt ::
  "'s KeyManager \<Rightarrow> string \<Rightarrow> EncryptionKey \<Rightarrow> string option \<Rightarrow> EncryptionKey option
     \<Rightarrow> 's world \<Rightarrow> (error + string) \<times> 's world" where
  "encrypt km data pubkey passphrase sign_with w =
     (case map_of (km_wrapper_map km) (key_class pubkey) of
        None \<Rightarrow> (Inl (AssertionError ''Unknown key type.''), w)
      | Some sch \<Rightarrow>
          if is_private pubkey then (Inl (AssertionError ''Key is not public.''), w)
          else (scheme_encrypt sch data pubkey passphrase sign_with,
                log (SchemeCrypto Encrypt (key_class pubkey) pubkey) w))"

definition decrypt ::
  "'s KeyManager \<Rightarrow> string \<Rightarrow> EncryptionKey \<Rightarrow> string option \<Rightarrow> EncryptionKey option
     \<Rightarrow> 's world \<Rightarrow> (error + string) \<times> 's world" where
  "decrypt km data privkey passphrase verify_with w =
     (case map_of (km_wrapper_map km) (key_class privkey) of
        None \<Rightarrow> (Inl (AssertionError ''Unknown key type.''), w)
      | Some sch \<Rightarrow>
          if \<not> is_private privkey then (Inl (AssertionError ''Key is not private.''), w)
          else (scheme_decrypt sch data privkey passphrase verify_with,
                log (SchemeCrypto Decrypt (key_class privkey) privkey) w))"

definition sign ::
  "'s KeyManager \<Rightarrow> string \<Rightarrow> EncryptionKey \<Rightarrow> 's world \<Rightarrow> (error + string) \<times> 's world" where
  "sign km data privkey w =
     (case map_of (km_wrapper_map km) (key_class privkey) of
        None \<Rightarrow> (Inl (AssertionError ''Unknown key type.''), w)
      | Some sch \<Rightarrow>
          if \<not> is_private privkey then (Inl (AssertionError ''Key is not private.''), w)
          else (scheme_sign sch data privkey,
                log (SchemeCrypto Sign (key_class privkey) privkey) w))"

definition verify ::
  "'s KeyManager \<Rightarrow> string \<Rightarrow> EncryptionKey \<Rightarrow> 's world \<Rightarrow> (error + bool) \<times> 's world" where
  "verify km data pubkey w =
     (case map_of (km_wrapper_map km) (key_class pubkey) of
        None \<Rightarrow> (Inl (AssertionError ''Unknown key type.''), w)
      | Some sch \<Rightarrow>
          if is_private pubkey then (Inl (AssertionError ''Key is not public.''), w)
          else (scheme_verify sch data pubkey,
                log (SchemeCrypto Verify (key_class pubkey) pubkey) w))"

section \<open>Observations on the log\<close>

text \<open>The events that a method appended to the log of the world it started from.\<close>

definition new_events :: "'s world \<Rightarrow> 's world \<Rightarrow> event list" where
  "new_events w w' = drop (length (trace w)) (trace w')"

text \<open>A response that \<^verbatim>\<open>_get\<close> returns to its caller.\<close>

definition accepted :: "Response \<Rightarrow> bool" where
  "accepted res =
     (raise_for_status res = None \<and>
      (case content_type res of None \<Rightarrow> False | Some ct \<Rightarrow> prefix ''application/json'' ct))"

section \<open>A concrete environment\<close>

text \<open>
  Modelled from the spec: one scheme, document store and key builder, in place of the modules
  \<^verbatim>\<open>leap.keymanager.openpgp\<close> and \<^verbatim>\<open>leap.keymanager.keys\<close> and of Soledad, after the
  contract of the local store (a lookup by address and role gives the key or not-found, an
  import adds a key, the query by tag lists the records of a role). The theorems below hold
  for every scheme, store and transport; this environment is the concrete one on which the
  examples run. The local store is the list of the keys it holds, a lookup returns the first
  key bound to the address with the asked role, and the material of the directory is a string
  \<^verbatim>\<open>address:data\<close>, imported as a public key bound to the address it names.
\<close>

definition example_get_key :: "EncryptionKey list \<Rightarrow> address \<Rightarrow> bool \<Rightarrow> error + EncryptionKey" where
  "example_get_key s a p =
     (case filter (\<lambda>k. address k = a \<and> is_private k = p) s of
        [] \<Rightarrow> Inl (KeyNotFound a)
      | k # ks \<Rightarrow> Inr k)"

definition example_put_ascii_key ::
  "EncryptionKey list \<Rightarrow> json \<Rightarrow> (error + unit) \<times> EncryptionKey list" where
  "example_put_ascii_key s v =
     (case v of
        JString m \<Rightarrow>
          (Inr (),
           s @ [\<lparr>key_class = OpenPGPKey, address = takeWhile (\<lambda>c. c \<noteq> CHR '':'') m,
                  key_data = m, is_private = False\<rparr>])
      | _ \<Rightarrow> (Inl (AssertionError ''Data does not represent a key.''), s))"

definition example_scheme :: "EncryptionKey list scheme" where
  "example_scheme =
     \<lparr> scheme_get_key = example_get_key,
       scheme_put_ascii_key = example_put_ascii_key,
       scheme_gen_key = (\<lambda>s a.
          (Inr \<lparr>key_class = OpenPGPKey, address = a, key_data = a @ '':generated'',
                 is_private = True\<rparr>,
           s @ [\<lparr>key_class = OpenPGPKey, address = a, key_data = a @ '':generated'',
                   is_private = True\<rparr>])),
       scheme_encrypt = (\<lambda>d k p s. Inr (''encrypted:'' @ d)),
       scheme_decrypt = (\<lambda>d k p s. Inr (''decrypted:'' @ d)),
       scheme_sign = (\<lambda>d k. Inr (''signed:'' @ d)),
       scheme_verify = (\<lambda>d k. Inr True) \<rparr>"

text \<open>The store seen through Soledad: one document per key with the asked role.\<close>

definition example_soledad :: "EncryptionKey list soledad" where
  "example_soledad =
     \<lparr> get_from_index = (\<lambda>s idx args.
          map (\<lambda>k. \<lparr>content = [(''type'', class_str (key_class k)), (''address'', address k),
                                  (''key_data'', key_data k)]\<rparr>)
            (filter (\<lambda>k. is_private k = (last args = ''1'')) s)) \<rparr>"

definition example_keys :: keys_module where
  "example_keys =
     \<lparr> build_key_from_dict = (\<lambda>klass a d.
          case dict_getitem d ''key_data'' of
            Inl e \<Rightarrow> Inl e
          | Inr m \<Rightarrow> Inr \<lparr>key_class = klass, address = a, key_data = m, is_private = False\<rparr>),
       KEYMANAGER_KEY_TAG = ''keymanager-key'',
       TAGS_PRIVATE_INDEX = ''by-tags-and-private'' \<rparr>"

text \<open>
  A directory that answers every address with the same response, and a provider that
  accepts every PUT.
\<close>

definition example_requests :: "Response \<Rightarrow> fetcher" where
  "example_requests res =
     \<lparr> http_get = (\<lambda>u d v. Inr res),
       http_put = (\<lambda>u d v c.
          Inr \<lparr>status_code = 200, content_type = Some ''application/json'',
                body = Some (JObject [])\<rparr>) \<rparr>"

text \<open>A transport that raises on every request.\<close>

definition failing_requests :: "error \<Rightarrow> fetcher" where
  "failing_requests e = \<lparr> http_get = (\<lambda>u d v. Inl e), http_put = (\<lambda>u d v c. Inl e) \<rparr>"

definition json_response :: "nat \<Rightarrow> json \<Rightarrow> Response" where
  "json_response st j =
     \<lparr>status_code = st, content_type = Some ''application/json'', body = Some j\<rparr>"

text \<open>The Key Manager of \<^verbatim>\<open>me@leap.se\<close>, by \<^verbatim>\<open>__init__\<close>.\<close>

definition example_km ::
  "string option \<Rightarrow> string option \<Rightarrow> Response \<Rightarrow> EncryptionKey list KeyManager" where
  "example_km session_id ca_cert_path res =
     KeyManager_init ''me@leap.se'' ''https://nicknym.leap.se'' example_soledad session_id
       ca_cert_path (Some ''https://api.leap.se'') (Some ''1'') (Some ''u1'')
       example_scheme (example_requests res)"

definition pubkey_of :: "address \<Rightarrow> EncryptionKey" where
  "pubkey_of a = \<lparr>key_class = OpenPGPKey, address = a, key_data = a @ '':pub'',
                    is_private = False\<rparr>"

definition privkey_of :: "address \<Rightarrow> EncryptionKey" where
  "privkey_of a = \<lparr>key_class = OpenPGPKey, address = a, key_data = a @ '':sec'',
                     is_private = True\<rparr>"

definition example_world :: "EncryptionKey list \<Rightarrow> EncryptionKey list world" where
  "example_world ks = \<lparr>store = ks, trace = []\<rparr>"

section \<open>The fetch from the directory, step by step\<close>

lemma network_calls_append [simp]:
  "network_calls (xs @ ys) = network_calls xs @ network_calls ys"
  by (simp add: network_calls_def)

lemma network_calls_Nil [simp]: "network_calls [] = []"
  by (simp add: network_calls_def)

lemma network_calls_Cons [simp]:
  "network_calls (e # es) = (if is_network e then e # network_calls es else network_calls es)"
  by (simp add: network_calls_def)

lemma KeyManager_get_no_ca:
  "km_ca_cert_path km = None \<Longrightarrow>
     KeyManager_get km u d w = (Inl (AssertionError ''We need the CA certificate path!''), w)"
  by (simp add: KeyManager_get_def)

lemma KeyManager_get_world:
  "km_ca_cert_path km = Some ca \<Longrightarrow> snd (KeyManager_get km u d w) = log (HttpGet u d ca) w"
  by (simp add: KeyManager_get_def Let_def split: sum.splits option.splits)

lemma KeyManager_get_accepted:
  assumes "km_ca_cert_path km = Some ca" and "http_get (km_fetcher km) u d ca = Inr res"
    and "accepted res"
  shows "KeyManager_get km u d w = (Inr res, log (HttpGet u d ca) w)"
  using assms
  by (auto simp add: KeyManager_get_def Let_def accepted_def split: option.splits)

lemma fetch_no_ca:
  "km_ca_cert_path km = None \<Longrightarrow>
     fetch_keys_from_server km a w
       = (Inl (AssertionError ''We need the CA certificate path!''), w)"
  by (simp add: fetch_keys_from_server_def KeyManager_get_no_ca)

lemma fetch_returns_ca:
  "fst (fetch_keys_from_server km a w) = Inr u \<Longrightarrow> km_ca_cert_path km \<noteq> None"
  by (cases "km_ca_cert_path km") (simp_all add: fetch_no_ca)

lemma fetch_after_get:
  assumes "KeyManager_get km (km_nickserver_uri km) [(''address'', a)] w = (Inr res, w1)"
    and "body res = Some (JObject kvs)"
  shows "fetch_keys_from_server km a w =
     (case map_of kvs ''openpgp'' of
        None \<Rightarrow> (Inr (), w1)
      | Some m \<Rightarrow>
         (case map_of (km_wrapper_map km) OpenPGPKey of
            None \<Rightarrow> (Inl (KeyError (class_str OpenPGPKey)), w1)
          | Some sch \<Rightarrow>
              (fst (scheme_put_ascii_key sch (store w1) m),
               (log (SchemePutAsciiKey OpenPGPKey m) w1)
                 \<lparr>store := snd (scheme_put_ascii_key sch (store w1) m)\<rparr>)))"
  using assms
  by (simp add: fetch_keys_from_server_def OPENPGP_KEY_def Let_def log_def
      split: option.splits prod.splits)

lemma KeyManager_get_rejected:
  assumes "km_ca_cert_path km = Some ca" and "http_get (km_fetcher km) u d ca = Inr res"
    and "\<not> accepted res"
  shows "\<exists>e. KeyManager_get km u d w = (Inl e, log (HttpGet u d ca) w)"
  using assms
  by (auto simp add: KeyManager_get_def Let_def accepted_def split: option.splits)

lemma fetch_get_raises:
  "KeyManager_get km (km_nickserver_uri km) [(''address'', a)] w = (Inl e, w1) \<Longrightarrow>
     fetch_keys_from_server km a w = (Inl e, w1)"
  by (simp add: fetch_keys_from_server_def)

lemma fetch_effect:
  assumes "km_ca_cert_path km = Some ca"
  shows "(trace (snd (fetch_keys_from_server km a w))
            = trace w @ [HttpGet (km_nickserver_uri km) [(''address'', a)] ca]
          \<and> store (snd (fetch_keys_from_server km a w)) = store w)
       \<or> (\<exists>m sch. map_of (km_wrapper_map km) OpenPGPKey = Some sch
            \<and> trace (snd (fetch_keys_from_server km a w))
                = trace w @ [HttpGet (km_nickserver_uri km) [(''address'', a)] ca,
                             SchemePutAsciiKey OpenPGPKey m]
            \<and> store (snd (fetch_keys_from_server km a w))
                = snd (scheme_put_ascii_key sch (store w) m)
            \<and> fst (fetch_keys_from_server km a w)
                = fst (scheme_put_ascii_key sch (store w) m))"
proof -
  obtain r w1 where g: "KeyManager_get km (km_nickserver_uri km) [(''address'', a)] w = (r, w1)"
    by (cases "KeyManager_get km (km_nickserver_uri km) [(''address'', a)] w")
  have w1: "w1 = log (HttpGet (km_nickserver_uri km) [(''address'', a)] ca) w"
    using KeyManager_get_world [OF assms, of "km_nickserver_uri km" "[(''address'', a)]" w] g
    by simp
  show ?thesis
    unfolding fetch_keys_from_server_def g
    by (auto simp add: w1 log_def Let_def split: sum.splits option.splits bool.splits prod.splits)
qed

lemma example_registry [simp]:
  "km_wrapper_map (example_km sid ca res) = [(OpenPGPKey, example_scheme)]"
  by (simp add: example_km_def KeyManager_init_def)

lemma example_lookup [simp]:
  "scheme_get_key example_scheme = example_get_key"
  by (simp add: example_scheme_def)

lemma example_config [simp]:
  "km_ca_cert_path (example_km sid ca res) = ca"
  "km_session_id (example_km sid ca res) = sid"
  "km_address (example_km sid ca res) = ''me@leap.se''"
  "km_nickserver_uri (example_km sid ca res) = ''https://nicknym.leap.se''"
  "km_fetcher (example_km sid ca res) = example_requests res"
  by (simp_all add: example_km_def KeyManager_init_def)

lemma example_fetch_found:
  "fetch_keys_from_server
      (example_km None (Some ''ca.crt'')
         (json_response 200 (JObject [(''openpgp'', JString ''bob@leap.se:pub'')])))
      ''bob@leap.se'' \<lparr>store = [], trace = evs\<rparr>
     = (Inr (),
        \<lparr>store = [pubkey_of ''bob@leap.se''],
          trace = evs @ [HttpGet ''https://nicknym.leap.se'' [(''address'', ''bob@leap.se'')] ''ca.crt'',
                   SchemePutAsciiKey OpenPGPKey (JString ''bob@leap.se:pub'')]\<rparr>)"
  by (simp add: fetch_keys_from_server_def KeyManager_get_def example_requests_def
      json_response_def raise_for_status_def OPENPGP_KEY_def Let_def log_def
      example_scheme_def example_put_ascii_key_def pubkey_of_def)

lemma example_fetch_status:
  "400 \<le> st \<Longrightarrow> st < 600 \<Longrightarrow>
   fetch_keys_from_server (example_km sid (Some ''ca.crt'') (json_response st j))
      a \<lparr>store = ks, trace = evs\<rparr>
     = (Inl (HTTPError st),
        \<lparr>store = ks,
          trace = evs @ [HttpGet ''https://nicknym.leap.se'' [(''address'', a)] ''ca.crt'']\<rparr>)"
  by (simp add: fetch_keys_from_server_def KeyManager_get_def example_requests_def
      json_response_def raise_for_status_def Let_def log_def)

section \<open>The loop of \<^verbatim>\<open>refresh_keys\<close>, step by step\<close>

lemma get_requests_append [simp]:
  "get_requests (xs @ ys) = get_requests xs @ get_requests ys"
  by (induction xs rule: get_requests.induct) simp_all

lemma fetch_events:
  "\<exists>evs. trace (snd (fetch_keys_from_server km a w)) = trace w @ evs
     \<and> (get_requests evs = [[(''address'', a)]] \<and> length (network_calls evs) = 1
        \<or> evs = [] \<and> isl (fst (fetch_keys_from_server km a w))
            \<and> store (snd (fetch_keys_from_server km a w)) = store w)"
proof (cases "km_ca_cert_path km")
  case None
  then show ?thesis
    by (simp add: fetch_no_ca)
next
  case (Some ca)
  show ?thesis
    using fetch_effect [OF Some, of a w] by auto
qed

lemma refresh_loop_events:
  "\<exists>evs fetched rest.
      trace (snd (refresh_loop km as w)) = trace w @ evs
    \<and> filter (\<lambda>a. a \<noteq> km_address km) as = fetched @ rest
    \<and> get_requests evs = map (\<lambda>a. [(''address'', a)]) fetched
    \<and> length (network_calls evs) = length fetched
    \<and> (fst (refresh_loop km as w) = Inr () \<longrightarrow> rest = [])"
proof (induction as arbitrary: w)
  case Nil
  then show ?case by simp
next
  case (Cons a as)
  show ?case
  proof (cases "a = km_address km")
    case True
    then show ?thesis
      using Cons.IH [of w] by simp
  next
    case False
    obtain r w1 where f: "fetch_keys_from_server km a w = (r, w1)"
      by (cases "fetch_keys_from_server km a w")
    obtain evs where evs: "trace w1 = trace w @ evs"
      and alt: "get_requests evs = [[(''address'', a)]] \<and> length (network_calls evs) = 1
         \<or> evs = [] \<and> isl r"
      using fetch_events [of km a w] f by auto
    show ?thesis
    proof (cases r)
      case (Inl e)
      have res: "refresh_loop km (a # as) w = (Inl e, w1)"
        using False f Inl by simp
      from alt show ?thesis
      proof
        assume g: "get_requests evs = [[(''address'', a)]] \<and> length (network_calls evs) = 1"
        have "filter (\<lambda>a. a \<noteq> km_address km) (a # as)
            = [a] @ filter (\<lambda>a. a \<noteq> km_address km) as"
          using False by simp
        then show ?thesis
          using res evs g by (metis (no_types, lifting) fst_conv snd_conv list.simps(8,9)
              length_Cons list.size(3) One_nat_def sum.distinct(1))
      next
        assume g: "evs = [] \<and> isl r"
        have "filter (\<lambda>a. a \<noteq> km_address km) (a # as)
            = [] @ filter (\<lambda>a. a \<noteq> km_address km) (a # as)"
          by simp
        then show ?thesis
          using res evs g
          by (metis (no_types, lifting) fst_conv snd_conv list.simps(8) list.size(3)
              get_requests.simps(1) network_calls_Nil sum.distinct(1))
      qed
    next
      case (Inr u)
      have res: "refresh_loop km (a # as) w = refresh_loop km as w1"
        using False f Inr by simp
      from alt Inr have g: "get_requests evs = [[(''address'', a)]]"
        "length (network_calls evs) = 1"
        by auto
      obtain evs' fetched rest where ih:
        "trace (snd (refresh_loop km as w1)) = trace w1 @ evs'"
        "filter (\<lambda>a. a \<noteq> km_address km) as = fetched @ rest"
        "get_requests evs' = map (\<lambda>a. [(''address'', a)]) fetched"
        "length (network_calls evs') = length fetched"
        "fst (refresh_loop km as w1) = Inr () \<longrightarrow> rest = []"
        using Cons.IH [of w1] by blast
      have 1: "trace (snd (refresh_loop km (a # as) w)) = trace w @ (evs @ evs')"
        using res ih(1) evs by simp
      have 2: "filter (\<lambda>a. a \<noteq> km_address km) (a # as) = (a # fetched) @ rest"
        using False ih(2) by simp
      have 3: "get_requests (evs @ evs') = map (\<lambda>a. [(''address'', a)]) (a # fetched)"
        using g ih(3) by simp
      have 4: "length (network_calls (evs @ evs')) = length (a # fetched)"
        using g ih(4) by simp
      have 5: "fst (refresh_loop km (a # as) w) = Inr () \<longrightarrow> rest = []"
        using res ih(5) by simp
      show ?thesis
        using 1 2 3 4 5 by blast
    qed
  qed
qed

lemma count_list_requests:
  "count_list (map (\<lambda>a. [(''address'', a)]) xs) [(''address'', a)] = count_list xs a"
  by (induction xs) simp_all

lemma count_list_distinct:
  "distinct xs \<Longrightarrow> count_list xs a = (if a \<in> set xs then 1 else 0)"
  by (induction xs) auto

lemma get_all_keys_world:
  "snd (get_all_keys_in_local_db K km priv w)
     = log (SoledadGetFromIndex (TAGS_PRIVATE_INDEX K)
              [KEYMANAGER_KEY_TAG K, if priv then ''1'' else ''0'']) w"
  by (simp add: get_all_keys_in_local_db_def Let_def)

lemma example_fetch_empty:
  "fetch_keys_from_server (example_km sid (Some ''ca.crt'') (json_response 200 (JObject [])))
      a \<lparr>store = ks, trace = evs\<rparr>
     = (Inr (),
        \<lparr>store = ks,
          trace = evs @ [HttpGet ''https://nicknym.leap.se'' [(''address'', a)] ''ca.crt'']\<rparr>)"
  by (simp add: fetch_keys_from_server_def KeyManager_get_def example_requests_def
      json_response_def raise_for_status_def OPENPGP_KEY_def Let_def log_def)

lemma example_all_keys_4:
  "get_all_keys_in_local_db example_keys (example_km sid ca res) False
      (example_world [pubkey_of ''alice@leap.se'', pubkey_of ''me@leap.se'',
         privkey_of ''me@leap.se'', pubkey_of ''alice@leap.se'', pubkey_of ''bob@leap.se''])
     = (Inr [pubkey_of ''alice@leap.se'', pubkey_of ''me@leap.se'', pubkey_of ''alice@leap.se'',
             pubkey_of ''bob@leap.se''],
        log (SoledadGetFromIndex ''by-tags-and-private'' [''keymanager-key'', ''0''])
          (example_world [pubkey_of ''alice@leap.se'', pubkey_of ''me@leap.se'',
             privkey_of ''me@leap.se'', pubkey_of ''alice@leap.se'', pubkey_of ''bob@leap.se'']))"
  by (simp add: get_all_keys_in_local_db_def example_keys_def example_soledad_def
      example_km_def KeyManager_init_def example_world_def pubkey_of_def privkey_of_def
      key_class_from_type_def dict_getitem_def Let_def log_def)

lemma set_iteration_remdups: "set_iteration remdups xs"
  by (simp add: set_iteration_def)

lemma address_pubkey_of [simp]: "address (pubkey_of a) = a"
  by (simp add: pubkey_of_def)

lemma example_all_keys_own:
  "get_all_keys_in_local_db example_keys (example_km sid ca res) False
      (example_world [pubkey_of ''me@leap.se'', privkey_of ''me@leap.se''])
     = (Inr [pubkey_of ''me@leap.se''],
        log (SoledadGetFromIndex ''by-tags-and-private'' [''keymanager-key'', ''0''])
          (example_world [pubkey_of ''me@leap.se'', privkey_of ''me@leap.se'']))"
  by (simp add: get_all_keys_in_local_db_def example_keys_def example_soledad_def
      example_km_def KeyManager_init_def example_world_def pubkey_of_def privkey_of_def
      key_class_from_type_def dict_getitem_def Let_def log_def)

lemma refresh_loop_skips_own:
  "refresh_loop km as w = refresh_loop km (filter (\<lambda>a. a \<noteq> km_address km) as) w"
  by (induction as arbitrary: w) (simp_all split: prod.splits sum.splits)

lemma refresh_loop_append:
  "refresh_loop km (xs @ ys) w =
     (case refresh_loop km xs w of
        (Inl e, w1) \<Rightarrow> (Inl e, w1)
      | (Inr u, w1) \<Rightarrow> refresh_loop km ys w1)"
  by (induction xs arbitrary: w) (simp_all split: prod.splits sum.splits)

lemma refresh_loop_stops:
  assumes "filter (\<lambda>a. a \<noteq> km_address km) as = pre @ a # post"
    and "refresh_loop km pre w = (Inr (), wa)"
    and "fetch_keys_from_server km a wa = (Inl e, wb)"
  shows "refresh_loop km as w = (Inl e, wb)"
proof -
  have "a \<in> set (filter (\<lambda>a. a \<noteq> km_address km) as)"
    by (simp add: assms(1))
  then have other: "a \<noteq> km_address km"
    by simp
  have "refresh_loop km as w = refresh_loop km (pre @ a # post) w"
    using refresh_loop_skips_own [of km as w] by (simp add: assms(1))
  also have "\<dots> = refresh_loop km (a # post) wa"
    by (simp add: refresh_loop_append assms(2))
  also have "\<dots> = (Inl e, wb)"
    using other by (simp add: assms(3))
  finally show ?thesis .
qed

lemma refresh_loop_failure:
  assumes "fst (refresh_loop km as w) = Inl e"
  shows "\<exists>pre a post.
       filter (\<lambda>a. a \<noteq> km_address km) as = pre @ a # post
     \<and> fst (refresh_loop km pre w) = Inr ()
     \<and> fetch_keys_from_server km a (snd (refresh_loop km pre w))
         = (Inl e, snd (refresh_loop km as w))"
  using assms
proof (induction as arbitrary: w)
  case Nil
  then show ?case by simp
next
  case (Cons x as)
  show ?case
  proof (cases "x = km_address km")
    case True
    then show ?thesis
      using Cons.IH [of w] Cons.prems by simp
  next
    case False
    obtain r w1 where f: "fetch_keys_from_server km x w = (r, w1)"
      by (cases "fetch_keys_from_server km x w")
    show ?thesis
    proof (cases r)
      case (Inl e')
      have res: "refresh_loop km (x # as) w = (Inl e', w1)"
        using False f Inl by simp
      then have "e' = e"
        using Cons.prems by simp
      then have "filter (\<lambda>a. a \<noteq> km_address km) (x # as)
            = [] @ x # filter (\<lambda>a. a \<noteq> km_address km) as
          \<and> fst (refresh_loop km [] w) = Inr ()
          \<and> fetch_keys_from_server km x (snd (refresh_loop km [] w))
              = (Inl e, snd (refresh_loop km (x # as) w))"
        unfolding res using False f Inl by simp
      then show ?thesis
        by blast
    next
      case (Inr u)
      have res: "refresh_loop km (x # as) w = refresh_loop km as w1"
        using False f Inr by simp
      then have "fst (refresh_loop km as w1) = Inl e"
        using Cons.prems by simp
      then obtain pre a post where ih:
        "filter (\<lambda>a. a \<noteq> km_address km) as = pre @ a # post"
        "fst (refresh_loop km pre w1) = Inr ()"
        "fetch_keys_from_server km a (snd (refresh_loop km pre w1))
           = (Inl e, snd (refresh_loop km as w1))"
        using Cons.IH [of w1] by blast
      have step: "refresh_loop km (x # pre) w = refresh_loop km pre w1"
        using False f Inr by simp
      have "filter (\<lambda>a. a \<noteq> km_address km) (x # as) = (x # pre) @ a # post
          \<and> fst (refresh_loop km (x # pre) w) = Inr ()
          \<and> fetch_keys_from_server km a (snd (refresh_loop km (x # pre) w))
              = (Inl e, snd (refresh_loop km (x # as) w))"
        unfolding step res using False ih by simp
      then show ?thesis
        by blast
    qed
  qed
qed

lemma refresh_loop_returns_requests:
  assumes "refresh_loop km as w = (Inr (), w')"
  shows "\<exists>evs. trace w' = trace w @ evs
     \<and> get_requests evs = map (\<lambda>a. [(''address'', a)]) (filter (\<lambda>a. a \<noteq> km_address km) as)"
  using refresh_loop_events [of km as w] assms by auto

lemma refresh_loop_stops_requests:
  assumes "distinct (filter (\<lambda>a. a \<noteq> km_address km) as)"
    and "filter (\<lambda>a. a \<noteq> km_address km) as = pre @ a # post"
    and "refresh_loop km pre w = (Inr (), wa)"
    and "fetch_keys_from_server km a wa = (Inl e, wb)"
    and "b \<in> set post"
  shows "\<exists>evs. trace wb = trace w @ evs
           \<and> count_list (get_requests evs) [(''address'', b)] = 0"
proof -
  have d: "distinct (pre @ a # post)"
    using assms(1) by (simp add: assms(2))
  have nb: "b \<notin> set pre" "b \<noteq> a"
    using d assms(5) by auto
  have "set pre \<subseteq> set (filter (\<lambda>a. a \<noteq> km_address km) as)"
    by (auto simp add: assms(2))
  then have "\<forall>x \<in> set pre. x \<noteq> km_address km"
    by auto
  then have keep: "filter (\<lambda>a. a \<noteq> km_address km) pre = pre"
    by (simp add: filter_id_conv)
  obtain evs where evs: "trace wa = trace w @ evs"
    "get_requests evs = map (\<lambda>a. [(''address'', a)]) pre"
    using refresh_loop_returns_requests [OF assms(3)] keep by auto
  obtain evs' where evs': "trace wb = trace wa @ evs'"
    "get_requests evs' = [[(''address'', a)]] \<or> evs' = []"
    using fetch_events [of km a wa] assms(4) by auto
  have c1: "count_list (get_requests evs) [(''address'', b)] = 0"
    using nb(1) by (simp add: evs(2) count_list_requests)
  have c2: "count_list (get_requests evs') [(''address'', b)] = 0"
    using evs'(2) nb(2) by auto
  have "trace wb = trace w @ (evs @ evs')"
    by (simp add: evs(1) evs'(1))
  moreover have "count_list (get_requests (evs @ evs')) [(''address'', b)] = 0"
    using c1 c2 by simp
  ultimately show ?thesis
    by blast
qed

lemma refresh_keys_stops:
  assumes "set_iteration iter (map address keys)"
    and "get_all_keys_in_local_db K km False w = (Inr keys, w1)"
    and "filter (\<lambda>a. a \<noteq> km_address km) (iter (map address keys)) = pre @ a # post"
    and "refresh_loop km pre w1 = (Inr (), wa)"
    and "fetch_keys_from_server km a wa = (Inl e, wb)"
  shows "refresh_keys iter K km w = (Inl e, wb)
       \<and> (\<forall>b. b \<in> set post \<longrightarrow>
            count_list (get_requests (new_events w wb)) [(''address'', b)] = 0)"
proof -
  let ?q = "SoledadGetFromIndex (TAGS_PRIVATE_INDEX K) [KEYMANAGER_KEY_TAG K, ''0'']"
  have dist: "distinct (filter (\<lambda>a. a \<noteq> km_address km) (iter (map address keys)))"
    using assms(1) by (simp add: set_iteration_def)
  have w1: "trace w1 = trace w @ [?q]"
    using get_all_keys_world [of K km False w] assms(2) by (simp add: log_def)
  have res: "refresh_keys iter K km w = (Inl e, wb)"
    using refresh_loop_stops [OF assms(3) assms(4) assms(5)] assms(2)
    by (simp add: refresh_keys_def)
  have "\<forall>b. b \<in> set post \<longrightarrow>
      count_list (get_requests (new_events w wb)) [(''address'', b)] = 0"
  proof (intro allI impI)
    fix b
    assume "b \<in> set post"
    then obtain evs where evs: "trace wb = trace w1 @ evs"
      "count_list (get_requests evs) [(''address'', b)] = 0"
      using refresh_loop_stops_requests [OF dist assms(3) assms(4) assms(5)] by blast
    have "new_events w wb = ?q # evs"
      by (simp add: new_events_def evs(1) w1)
    then show "count_list (get_requests (new_events w wb)) [(''address'', b)] = 0"
      using evs(2) by simp
  qed
  then show ?thesis
    using res by (rule conjI [rotated])
qed

lemma refresh_keys_failure:
  assumes "set_iteration iter (map address keys)"
    and "get_all_keys_in_local_db K km False w = (Inr keys, w1)"
    and "fst (refresh_keys iter K km w) = Inl e"
  shows "\<exists>pre a post.
       filter (\<lambda>a. a \<noteq> km_address km) (iter (map address keys)) = pre @ a # post
     \<and> fst (refresh_loop km pre w1) = Inr ()
     \<and> fetch_keys_from_server km a (snd (refresh_loop km pre w1))
         = (Inl e, snd (refresh_keys iter K km w))
     \<and> (\<forall>b. b \<in> set post \<longrightarrow>
          count_list (get_requests (new_events w (snd (refresh_keys iter K km w))))
            [(''address'', b)] = 0)"
proof -
  have rk: "refresh_keys iter K km w = refresh_loop km (iter (map address keys)) w1"
    using assms(2) by (simp add: refresh_keys_def)
  obtain pre a post where p:
    "filter (\<lambda>a. a \<noteq> km_address km) (iter (map address keys)) = pre @ a # post"
    "fst (refresh_loop km pre w1) = Inr ()"
    "fetch_keys_from_server km a (snd (refresh_loop km pre w1))
       = (Inl e, snd (refresh_keys iter K km w))"
    using refresh_loop_failure [of km "iter (map address keys)" w1 e] assms(3)
    unfolding rk by blast
  have ok: "refresh_loop km pre w1 = (Inr (), snd (refresh_loop km pre w1))"
    using p(2) by (cases "refresh_loop km pre w1") simp
  have "\<forall>b. b \<in> set post \<longrightarrow>
      count_list (get_requests (new_events w (snd (refresh_keys iter K km w))))
        [(''address'', b)] = 0"
    using refresh_keys_stops [OF assms(1) assms(2) p(1) ok p(3)] by blast
  then show ?thesis
    using p by blast
qed

lemma example_all_keys_2:
  "get_all_keys_in_local_db example_keys (example_km sid ca res) False
      (example_world [pubkey_of ''alice@leap.se'', pubkey_of ''bob@leap.se''])
     = (Inr [pubkey_of ''alice@leap.se'', pubkey_of ''bob@leap.se''],
        \<lparr>store = [pubkey_of ''alice@leap.se'', pubkey_of ''bob@leap.se''],
          trace = [SoledadGetFromIndex ''by-tags-and-private'' [''keymanager-key'', ''0'']]\<rparr>)"
  by (simp add: get_all_keys_in_local_db_def example_keys_def example_soledad_def
      example_km_def KeyManager_init_def example_world_def pubkey_of_def privkey_of_def
      key_class_from_type_def dict_getitem_def Let_def log_def)

section \<open>Methods called without the configuration they need\<close>







section \<open>Properties of \<^verbatim>\<open>get_key\<close>\<close>

text \<open>
  Claim C9. Called with a key type that has no registered scheme, \<^verbatim>\<open>get_key\<close> raises the
  assertion error for an unknown key type and returns the world it was given: no lookup in the
  local store and no network call has been made, whatever the address and the flags.
\<close>

theorem get_key_unknown_key_type:
  assumes "map_of (km_wrapper_map km) T = None"
  shows "get_key km A T priv fetch_remote w =
           (Inl (AssertionError (''Unkown key type: '' @ class_str T @ ''.'')), w)"
  using assms by (simp add: get_key_def)

theorem get_key_unknown_key_type_witness:
  "map_of (km_wrapper_map (example_km None None (json_response 200 (JObject []))))
       (OtherKeyClass ''X509Key'') = None
   \<and> get_key (example_km None None (json_response 200 (JObject []))) ''bob@leap.se''
       (OtherKeyClass ''X509Key'') False True (example_world [pubkey_of ''bob@leap.se'']) =
       (Inl (AssertionError ''Unkown key type: <class 'X509Key'>.''),
        example_world [pubkey_of ''bob@leap.se''])"
proof -
  have h: "map_of (km_wrapper_map (example_km None None (json_response 200 (JObject []))))
       (OtherKeyClass ''X509Key'') = None"
    by simp
  show ?thesis
    using h get_key_unknown_key_type [OF h, of "''bob@leap.se''" False True
        "example_world [pubkey_of ''bob@leap.se'']"]
    by simp
qed

text \<open>
  Claim C7. When the local store holds a public key for the address, \<^verbatim>\<open>get_key\<close> with
  \<^verbatim>\<open>private=False\<close> returns it from the one lookup it makes: the store is unchanged and the
  log gains the lookup only, so no network call is made, whatever \<^verbatim>\<open>fetch_remote\<close> is.
\<close>

theorem get_key_local_hit:
  assumes "map_of (km_wrapper_map km) T = Some sch"
    and "scheme_get_key sch (store w) A False = Inr k"
  shows "fst (get_key km A T False fetch_remote w) = Inr k
       \<and> store (snd (get_key km A T False fetch_remote w)) = store w
       \<and> trace (snd (get_key km A T False fetch_remote w)) = trace w @ [SchemeGetKey T A False]
       \<and> network_calls (trace (snd (get_key km A T False fetch_remote w)))
           = network_calls (trace w)"
  using assms by (simp add: get_key_def Let_def log_def)

theorem get_key_local_hit_witness:
  "fst (get_key (example_km None None (json_response 500 JNull)) ''bob@leap.se'' OpenPGPKey
          False True (example_world [pubkey_of ''bob@leap.se''])) = Inr (pubkey_of ''bob@leap.se'')
   \<and> trace (snd (get_key (example_km None None (json_response 500 JNull)) ''bob@leap.se''
          OpenPGPKey False True (example_world [pubkey_of ''bob@leap.se''])))
       = [SchemeGetKey OpenPGPKey ''bob@leap.se'' False]"
proof -
  have reg: "map_of (km_wrapper_map (example_km None None (json_response 500 JNull))) OpenPGPKey
      = Some example_scheme"
    by simp
  have hit: "scheme_get_key example_scheme (store (example_world [pubkey_of ''bob@leap.se'']))
      ''bob@leap.se'' False = Inr (pubkey_of ''bob@leap.se'')"
    by (simp add: example_get_key_def example_world_def pubkey_of_def)
  show ?thesis
    using get_key_local_hit [OF reg hit, of True]
    by (simp add: example_world_def)
qed

text \<open>
  Claim C2. With \<^verbatim>\<open>private=True\<close> or with \<^verbatim>\<open>fetch_remote=False\<close>, \<^verbatim>\<open>get_key\<close> makes no
  network call and leaves the local store as it is, for every key type, every state of the
  store and every directory; and when the lookup of a registered scheme raises (in particular
  \<^verbatim>\<open>KeyNotFound\<close>), that very exception leaves \<^verbatim>\<open>get_key\<close>, the lookup being the only call
  made.
\<close>

theorem get_key_never_fetches:
  assumes "priv \<or> \<not> fetch_remote"
  shows "network_calls (trace (snd (get_key km A T priv fetch_remote w)))
           = network_calls (trace w)
       \<and> store (snd (get_key km A T priv fetch_remote w)) = store w
       \<and> (\<forall>sch e. map_of (km_wrapper_map km) T = Some sch
              \<and> scheme_get_key sch (store w) A priv = Inl e
            \<longrightarrow> get_key km A T priv fetch_remote w = (Inl e, log (SchemeGetKey T A priv) w))"
  using assms
  by (auto simp add: get_key_def Let_def log_def split: option.splits sum.splits error.splits)

theorem get_key_never_fetches_witness:
  "get_key (example_km (Some ''sid'') (Some ''ca.crt'')
        (json_response 200 (JObject [(''openpgp'', JString ''bob@leap.se:pub'')])))
      ''bob@leap.se'' OpenPGPKey True True (example_world [pubkey_of ''bob@leap.se''])
    = (Inl (KeyNotFound ''bob@leap.se''),
       log (SchemeGetKey OpenPGPKey ''bob@leap.se'' True) (example_world [pubkey_of ''bob@leap.se'']))
   \<and> get_key (example_km (Some ''sid'') (Some ''ca.crt'')
        (json_response 200 (JObject [(''openpgp'', JString ''bob@leap.se:pub'')])))
      ''bob@leap.se'' OpenPGPKey False False (example_world [])
    = (Inl (KeyNotFound ''bob@leap.se''),
       log (SchemeGetKey OpenPGPKey ''bob@leap.se'' False) (example_world []))"
proof -
  let ?km = "example_km (Some ''sid'') (Some ''ca.crt'')
        (json_response 200 (JObject [(''openpgp'', JString ''bob@leap.se:pub'')]))"
  have reg: "map_of (km_wrapper_map ?km) OpenPGPKey = Some example_scheme"
    by simp
  have m1: "scheme_get_key example_scheme (store (example_world [pubkey_of ''bob@leap.se'']))
      ''bob@leap.se'' True = Inl (KeyNotFound ''bob@leap.se'')"
    by (simp add: example_get_key_def example_world_def pubkey_of_def)
  have m2: "scheme_get_key example_scheme (store (example_world [])) ''bob@leap.se'' False
      = Inl (KeyNotFound ''bob@leap.se'')"
    by (simp add: example_get_key_def example_world_def)
  have f1: "True \<or> \<not> True" by simp
  have f2: "False \<or> \<not> False" by simp
  show ?thesis
    using get_key_never_fetches [OF f1, of ?km "''bob@leap.se''" OpenPGPKey
        "example_world [pubkey_of ''bob@leap.se'']"]
      get_key_never_fetches [OF f2, of ?km "''bob@leap.se''" OpenPGPKey "example_world []"]
      reg m1 m2
    by blast
qed

section \<open>Properties of the dispatcher\<close>

text \<open>
  Claim C3. Each of \<^verbatim>\<open>encrypt\<close>, \<^verbatim>\<open>decrypt\<close>, \<^verbatim>\<open>sign\<close> and \<^verbatim>\<open>verify\<close> first raises the
  assertion error for an unknown key type when the class of the key has no registered scheme
  (whatever the role of the key), then the assertion error for the role when the key is
  private (\<^verbatim>\<open>encrypt\<close>, \<^verbatim>\<open>verify\<close>) or public (\<^verbatim>\<open>decrypt\<close>, \<^verbatim>\<open>sign\<close>); in both cases the
  world is returned as it was, so no scheme has been called. Otherwise the call is forwarded
  to the scheme registered for the class of the key, and the log gains that one call.
\<close>

theorem dispatch_checks_then_forwards:
  "(map_of (km_wrapper_map km) (key_class k) = None \<longrightarrow>
      encrypt km d k pp sg w = (Inl (AssertionError ''Unknown key type.''), w)
    \<and> decrypt km d k pp vf w = (Inl (AssertionError ''Unknown key type.''), w)
    \<and> sign km d k w = (Inl (AssertionError ''Unknown key type.''), w)
    \<and> verify km d k w = (Inl (AssertionError ''Unknown key type.''), w))
 \<and> (\<forall>sch. map_of (km_wrapper_map km) (key_class k) = Some sch \<and> is_private k \<longrightarrow>
      encrypt km d k pp sg w = (Inl (AssertionError ''Key is not public.''), w)
    \<and> verify km d k w = (Inl (AssertionError ''Key is not public.''), w)
    \<and> decrypt km d k pp vf w
        = (scheme_decrypt sch d k pp vf, log (SchemeCrypto Decrypt (key_class k) k) w)
    \<and> sign km d k w = (scheme_sign sch d k, log (SchemeCrypto Sign (key_class k) k) w))
 \<and> (\<forall>sch. map_of (km_wrapper_map km) (key_class k) = Some sch \<and> \<not> is_private k \<longrightarrow>
      decrypt km d k pp vf w = (Inl (AssertionError ''Key is not private.''), w)
    \<and> sign km d k w = (Inl (AssertionError ''Key is not private.''), w)
    \<and> encrypt km d k pp sg w
        = (scheme_encrypt sch d k pp sg, log (SchemeCrypto Encrypt (key_class k) k) w)
    \<and> verify km d k w = (scheme_verify sch d k, log (SchemeCrypto Verify (key_class k) k) w))"
  by (simp add: encrypt_def decrypt_def sign_def verify_def)

theorem dispatch_checks_then_forwards_witness:
  "encrypt (example_km None None (json_response 200 JNull)) ''hello''
      \<lparr>key_class = OtherKeyClass ''X509Key'', address = ''bob@leap.se'', key_data = ''k'',
        is_private = True\<rparr> None None (example_world [])
     = (Inl (AssertionError ''Unknown key type.''), example_world [])
   \<and> encrypt (example_km None None (json_response 200 JNull)) ''hello''
      (privkey_of ''bob@leap.se'') None None (example_world [])
     = (Inl (AssertionError ''Key is not public.''), example_world [])
   \<and> sign (example_km None None (json_response 200 JNull)) ''hello''
      (pubkey_of ''bob@leap.se'') (example_world [])
     = (Inl (AssertionError ''Key is not private.''), example_world [])
   \<and> encrypt (example_km None None (json_response 200 JNull)) ''hello''
      (pubkey_of ''bob@leap.se'') None None (example_world [])
     = (Inr ''encrypted:hello'',
        log (SchemeCrypto Encrypt OpenPGPKey (pubkey_of ''bob@leap.se'')) (example_world []))
   \<and> sign (example_km None None (json_response 200 JNull)) ''hello''
      (privkey_of ''me@leap.se'') (example_world [])
     = (Inr ''signed:hello'',
        log (SchemeCrypto Sign OpenPGPKey (privkey_of ''me@leap.se'')) (example_world []))"
proof -
  let ?km = "example_km None None (json_response 200 JNull)"
  let ?x = "\<lparr>key_class = OtherKeyClass ''X509Key'', address = ''bob@leap.se'', key_data = ''k'',
        is_private = True\<rparr>"
  have unreg: "map_of (km_wrapper_map ?km) (key_class ?x) = None"
    by simp
  have reg: "map_of (km_wrapper_map ?km) OpenPGPKey = Some example_scheme"
    by simp
  have cls: "key_class (pubkey_of ''bob@leap.se'') = OpenPGPKey"
    "key_class (privkey_of ''bob@leap.se'') = OpenPGPKey"
    "key_class (privkey_of ''me@leap.se'') = OpenPGPKey"
    by (simp_all add: pubkey_of_def privkey_of_def)
  have role: "\<not> is_private (pubkey_of ''bob@leap.se'')" "is_private (privkey_of ''bob@leap.se'')"
    "is_private (privkey_of ''me@leap.se'')"
    by (simp_all add: pubkey_of_def privkey_of_def)
  have ops: "scheme_encrypt example_scheme ''hello'' (pubkey_of ''bob@leap.se'') None None
        = Inr ''encrypted:hello''"
    "scheme_sign example_scheme ''hello'' (privkey_of ''me@leap.se'') = Inr ''signed:hello''"
    by (simp_all add: example_scheme_def)
  show ?thesis
    using dispatch_checks_then_forwards [of ?km ?x "''hello''" None None "example_world []" None]
      dispatch_checks_then_forwards [of ?km "privkey_of ''bob@leap.se''" "''hello''" None None
        "example_world []" None]
      dispatch_checks_then_forwards [of ?km "pubkey_of ''bob@leap.se''" "''hello''" None None
        "example_world []" None]
      dispatch_checks_then_forwards [of ?km "privkey_of ''me@leap.se''" "''hello''" None None
        "example_world []" None]
      unreg reg cls role ops
    by metis
qed

section \<open>Properties of \<^verbatim>\<open>send_key\<close>\<close>

text \<open>
  Claim C5. \<^verbatim>\<open>send_key\<close> raises an assertion error for every key type but \<^verbatim>\<open>OpenPGPKey\<close>,
  without touching the world. For \<^verbatim>\<open>OpenPGPKey\<close>, when the lookup of the public key bound to
  the Key Manager's own address raises \<^verbatim>\<open>KeyNotFound\<close>, that exception leaves \<^verbatim>\<open>send_key\<close>:
  the lookup is the only call made, so there is no PUT and no fetch from the directory.
\<close>

theorem send_key_without_local_key:
  "(T \<noteq> OpenPGPKey \<longrightarrow>
      send_key km T w =
        (Inl (AssertionError ''For now we only know how to send OpenPGP public keys.''), w))
 \<and> (\<forall>sch a. map_of (km_wrapper_map km) OpenPGPKey = Some sch
        \<and> scheme_get_key sch (store w) (km_address km) False = Inl (KeyNotFound a) \<longrightarrow>
      send_key km OpenPGPKey w
        = (Inl (KeyNotFound a), log (SchemeGetKey OpenPGPKey (km_address km) False) w)
    \<and> network_calls (trace (snd (send_key km OpenPGPKey w))) = network_calls (trace w)
    \<and> store (snd (send_key km OpenPGPKey w)) = store w)"
  by (simp add: send_key_def get_key_def Let_def log_def)

theorem send_key_without_local_key_witness:
  "send_key (example_km (Some ''sid'') (Some ''ca.crt'') (json_response 200 (JObject [])))
      (OtherKeyClass ''X509Key'') (example_world [])
     = (Inl (AssertionError ''For now we only know how to send OpenPGP public keys.''),
        example_world [])
   \<and> send_key (example_km (Some ''sid'') (Some ''ca.crt'') (json_response 200 (JObject [])))
      OpenPGPKey (example_world [pubkey_of ''bob@leap.se''])
     = (Inl (KeyNotFound ''me@leap.se''),
        log (SchemeGetKey OpenPGPKey ''me@leap.se'' False)
          (example_world [pubkey_of ''bob@leap.se'']))"
proof -
  let ?km = "example_km (Some ''sid'') (Some ''ca.crt'') (json_response 200 (JObject []))"
  have other: "OtherKeyClass ''X509Key'' \<noteq> OpenPGPKey"
    by simp
  have own: "km_address ?km = ''me@leap.se''"
    by (simp add: example_km_def KeyManager_init_def)
  have reg: "map_of (km_wrapper_map ?km) OpenPGPKey = Some example_scheme"
    by simp
  have miss: "scheme_get_key example_scheme (store (example_world [pubkey_of ''bob@leap.se'']))
      (km_address ?km) False = Inl (KeyNotFound ''me@leap.se'')"
    by (simp add: own example_get_key_def example_world_def pubkey_of_def)
  show ?thesis
    using send_key_without_local_key [of "OtherKeyClass ''X509Key''" ?km "example_world []"]
      send_key_without_local_key [of OpenPGPKey ?km "example_world [pubkey_of ''bob@leap.se'']"]
      other reg miss own
    by metis
qed

section \<open>Properties of the fetch from the directory\<close>

text \<open>
  Claim C6, as the code has it. With the CA certificate path set, every failure of the request
  leaves \<^verbatim>\<open>_fetch_keys_from_server\<close> as an exception, after the one GET and with the local
  store untouched: an exception of the transport itself (connection or certificate failure),
  a response with a status from 400 to 599 (the statuses for which \<^verbatim>\<open>raise_for_status\<close>
  raises), a content type that does not begin with \<^verbatim>\<open>application/json\<close>, and a response
  without a \<^verbatim>\<open>content-type\<close> header. An accepted
  response whose JSON object has no \<^verbatim>\<open>openpgp\<close> entry is no error: the fetch returns, the
  store is untouched, and the retry of \<^verbatim>\<open>get_key\<close> raises the \<^verbatim>\<open>KeyNotFound\<close> of the lookup.
\<close>

theorem fetch_failures_propagate:
  assumes "km_ca_cert_path km = Some ca"
  shows "(\<forall>e. http_get (km_fetcher km) (km_nickserver_uri km) [(''address'', A)] ca = Inl e \<longrightarrow>
            fetch_keys_from_server km A w
              = (Inl e, log (HttpGet (km_nickserver_uri km) [(''address'', A)] ca) w))
       \<and> (\<forall>res. http_get (km_fetcher km) (km_nickserver_uri km) [(''address'', A)] ca = Inr res
              \<and> 400 \<le> status_code res \<and> status_code res < 600 \<longrightarrow>
            fetch_keys_from_server km A w
              = (Inl (HTTPError (status_code res)),
                 log (HttpGet (km_nickserver_uri km) [(''address'', A)] ca) w))
       \<and> (\<forall>res ct. http_get (km_fetcher km) (km_nickserver_uri km) [(''address'', A)] ca = Inr res
              \<and> raise_for_status res = None \<and> content_type res = Some ct
              \<and> \<not> prefix ''application/json'' ct \<longrightarrow>
            fetch_keys_from_server km A w
              = (Inl (AssertionError ''Content-type is not JSON.''),
                 log (HttpGet (km_nickserver_uri km) [(''address'', A)] ca) w))
       \<and> (\<forall>res. http_get (km_fetcher km) (km_nickserver_uri km) [(''address'', A)] ca = Inr res
              \<and> raise_for_status res = None \<and> content_type res = None \<longrightarrow>
            fetch_keys_from_server km A w
              = (Inl (KeyError ''content-type''),
                 log (HttpGet (km_nickserver_uri km) [(''address'', A)] ca) w))
       \<and> (\<forall>res kvs. http_get (km_fetcher km) (km_nickserver_uri km) [(''address'', A)] ca = Inr res
              \<and> accepted res \<and> body res = Some (JObject kvs) \<and> map_of kvs ''openpgp'' = None \<longrightarrow>
            fetch_keys_from_server km A w
              = (Inr (), log (HttpGet (km_nickserver_uri km) [(''address'', A)] ca) w)
            \<and> (\<forall>T sch x. map_of (km_wrapper_map km) T = Some sch
                   \<and> scheme_get_key sch (store w) A False = Inl (KeyNotFound x) \<longrightarrow>
                 fst (get_key km A T False True w) = Inl (KeyNotFound x)
                 \<and> store (snd (get_key km A T False True w)) = store w))"
proof (intro conjI allI impI)
  fix e
  assume "http_get (km_fetcher km) (km_nickserver_uri km) [(''address'', A)] ca = Inl e"
  then show "fetch_keys_from_server km A w
      = (Inl e, log (HttpGet (km_nickserver_uri km) [(''address'', A)] ca) w)"
    using assms by (simp add: fetch_keys_from_server_def KeyManager_get_def Let_def)
next
  fix res
  assume "http_get (km_fetcher km) (km_nickserver_uri km) [(''address'', A)] ca = Inr res
      \<and> 400 \<le> status_code res \<and> status_code res < 600"
  then show "fetch_keys_from_server km A w
      = (Inl (HTTPError (status_code res)),
         log (HttpGet (km_nickserver_uri km) [(''address'', A)] ca) w)"
    using assms
    by (simp add: fetch_keys_from_server_def KeyManager_get_def Let_def raise_for_status_def)
next
  fix res ct
  assume "http_get (km_fetcher km) (km_nickserver_uri km) [(''address'', A)] ca = Inr res
      \<and> raise_for_status res = None \<and> content_type res = Some ct
      \<and> \<not> prefix ''application/json'' ct"
  then show "fetch_keys_from_server km A w
      = (Inl (AssertionError ''Content-type is not JSON.''),
         log (HttpGet (km_nickserver_uri km) [(''address'', A)] ca) w)"
    using assms by (simp add: fetch_keys_from_server_def KeyManager_get_def Let_def)
next
  fix res
  assume "http_get (km_fetcher km) (km_nickserver_uri km) [(''address'', A)] ca = Inr res
      \<and> raise_for_status res = None \<and> content_type res = None"
  then show "fetch_keys_from_server km A w
      = (Inl (KeyError ''content-type''),
         log (HttpGet (km_nickserver_uri km) [(''address'', A)] ca) w)"
    using assms by (simp add: fetch_keys_from_server_def KeyManager_get_def Let_def)
next
  fix res kvs
  assume h: "http_get (km_fetcher km) (km_nickserver_uri km) [(''address'', A)] ca = Inr res
      \<and> accepted res \<and> body res = Some (JObject kvs) \<and> map_of kvs ''openpgp'' = None"
  have g: "\<And>w0. KeyManager_get km (km_nickserver_uri km) [(''address'', A)] w0
      = (Inr res, log (HttpGet (km_nickserver_uri km) [(''address'', A)] ca) w0)"
    using KeyManager_get_accepted [OF assms] h by blast
  have f: "\<And>w0. fetch_keys_from_server km A w0
      = (Inr (), log (HttpGet (km_nickserver_uri km) [(''address'', A)] ca) w0)"
    using fetch_after_get [OF g] h by simp
  show "fetch_keys_from_server km A w
      = (Inr (), log (HttpGet (km_nickserver_uri km) [(''address'', A)] ca) w)"
    by (rule f)
  fix T sch x
  assume m: "map_of (km_wrapper_map km) T = Some sch
      \<and> scheme_get_key sch (store w) A False = Inl (KeyNotFound x)"
  then show "fst (get_key km A T False True w) = Inl (KeyNotFound x)"
    by (simp add: get_key_def Let_def f log_def)
  from m show "store (snd (get_key km A T False True w)) = store w"
    by (simp add: get_key_def Let_def f log_def)
qed

theorem fetch_failures_propagate_witness:
  "fetch_keys_from_server
      ((example_km None (Some ''ca.crt'') (json_response 200 (JObject [])))
         \<lparr>km_fetcher := failing_requests (RequestException ''certificate verify failed'')\<rparr>)
      ''bob@leap.se'' (example_world [])
     = (Inl (RequestException ''certificate verify failed''),
        log (HttpGet ''https://nicknym.leap.se'' [(''address'', ''bob@leap.se'')] ''ca.crt'')
          (example_world []))
   \<and> fetch_keys_from_server
      (example_km None (Some ''ca.crt'') (json_response 404 (JObject [])))
      ''bob@leap.se'' (example_world [])
     = (Inl (HTTPError 404),
        log (HttpGet ''https://nicknym.leap.se'' [(''address'', ''bob@leap.se'')] ''ca.crt'')
          (example_world []))
   \<and> fetch_keys_from_server
      (example_km None (Some ''ca.crt'')
         \<lparr>status_code = 200, content_type = Some ''text/html'', body = None\<rparr>)
      ''bob@leap.se'' (example_world [])
     = (Inl (AssertionError ''Content-type is not JSON.''),
        log (HttpGet ''https://nicknym.leap.se'' [(''address'', ''bob@leap.se'')] ''ca.crt'')
          (example_world []))
   \<and> fetch_keys_from_server
      (example_km None (Some ''ca.crt'')
         \<lparr>status_code = 200, content_type = None, body = Some (JObject [])\<rparr>)
      ''bob@leap.se'' (example_world [])
     = (Inl (KeyError ''content-type''),
        log (HttpGet ''https://nicknym.leap.se'' [(''address'', ''bob@leap.se'')] ''ca.crt'')
          (example_world []))
   \<and> fetch_keys_from_server
      (example_km None (Some ''ca.crt'') (json_response 200 (JObject [])))
      ''bob@leap.se'' (example_world [])
     = (Inr (),
        log (HttpGet ''https://nicknym.leap.se'' [(''address'', ''bob@leap.se'')] ''ca.crt'')
          (example_world []))
   \<and> fst (get_key (example_km None (Some ''ca.crt'') (json_response 200 (JObject [])))
        ''bob@leap.se'' OpenPGPKey False True (example_world []))
     = Inl (KeyNotFound ''bob@leap.se'')"
proof -
  let ?A = "''bob@leap.se''"
  let ?w = "example_world []"
  let ?km1 = "(example_km None (Some ''ca.crt'') (json_response 200 (JObject [])))
         \<lparr>km_fetcher := failing_requests (RequestException ''certificate verify failed'')\<rparr>"
  let ?km2 = "example_km None (Some ''ca.crt'') (json_response 404 (JObject []))"
  let ?r3 = "\<lparr>status_code = 200, content_type = Some ''text/html'', body = None\<rparr>"
  let ?km3 = "example_km None (Some ''ca.crt'') ?r3"
  let ?km4 = "example_km None (Some ''ca.crt'') (json_response 200 (JObject []))"
  let ?r5 = "\<lparr>status_code = 200, content_type = None, body = Some (JObject [])\<rparr>"
  let ?km5 = "example_km None (Some ''ca.crt'') ?r5"
  have ca: "km_ca_cert_path ?km1 = Some ''ca.crt''" "km_ca_cert_path ?km2 = Some ''ca.crt''"
    "km_ca_cert_path ?km3 = Some ''ca.crt''" "km_ca_cert_path ?km4 = Some ''ca.crt''"
    "km_ca_cert_path ?km5 = Some ''ca.crt''"
    by simp_all
  have uri: "km_nickserver_uri ?km1 = ''https://nicknym.leap.se''"
    by simp
  have h1: "http_get (km_fetcher ?km1) (km_nickserver_uri ?km1) [(''address'', ?A)] ''ca.crt''
      = Inl (RequestException ''certificate verify failed'')"
    by (simp add: failing_requests_def)
  have h2: "http_get (km_fetcher ?km2) (km_nickserver_uri ?km2) [(''address'', ?A)] ''ca.crt''
        = Inr (json_response 404 (JObject []))
      \<and> 400 \<le> status_code (json_response 404 (JObject []))
      \<and> status_code (json_response 404 (JObject [])) < 600"
    by (simp add: example_requests_def json_response_def)
  have h3: "http_get (km_fetcher ?km3) (km_nickserver_uri ?km3) [(''address'', ?A)] ''ca.crt''
        = Inr ?r3
      \<and> raise_for_status ?r3 = None \<and> content_type ?r3 = Some ''text/html''
      \<and> \<not> prefix ''application/json'' ''text/html''"
    by (simp add: example_requests_def raise_for_status_def)
  have h4: "http_get (km_fetcher ?km4) (km_nickserver_uri ?km4) [(''address'', ?A)] ''ca.crt''
        = Inr (json_response 200 (JObject []))
      \<and> accepted (json_response 200 (JObject []))
      \<and> body (json_response 200 (JObject [])) = Some (JObject [])
      \<and> map_of ([] :: (string \<times> json) list) ''openpgp'' = None"
    by (simp add: example_requests_def json_response_def accepted_def raise_for_status_def)
  have h6: "http_get (km_fetcher ?km5) (km_nickserver_uri ?km5) [(''address'', ?A)] ''ca.crt''
        = Inr ?r5
      \<and> raise_for_status ?r5 = None \<and> content_type ?r5 = None"
    by (simp add: example_requests_def raise_for_status_def)
  have h5: "map_of (km_wrapper_map ?km4) OpenPGPKey = Some example_scheme
      \<and> scheme_get_key example_scheme (store ?w) ?A False = Inl (KeyNotFound ?A)"
    by (simp add: example_get_key_def example_world_def)
  have c1: "fetch_keys_from_server ?km1 ?A ?w
      = (Inl (RequestException ''certificate verify failed''),
         log (HttpGet (km_nickserver_uri ?km1) [(''address'', ?A)] ''ca.crt'') ?w)"
    using fetch_failures_propagate [OF ca(1), of ?A ?w] h1 by blast
  have c2: "fetch_keys_from_server ?km2 ?A ?w
      = (Inl (HTTPError (status_code (json_response 404 (JObject [])))),
         log (HttpGet (km_nickserver_uri ?km2) [(''address'', ?A)] ''ca.crt'') ?w)"
    using fetch_failures_propagate [OF ca(2), of ?A ?w] h2 by blast
  have c3: "fetch_keys_from_server ?km3 ?A ?w
      = (Inl (AssertionError ''Content-type is not JSON.''),
         log (HttpGet (km_nickserver_uri ?km3) [(''address'', ?A)] ''ca.crt'') ?w)"
    using fetch_failures_propagate [OF ca(3), of ?A ?w] h3 by blast
  have c4: "fetch_keys_from_server ?km4 ?A ?w
      = (Inr (), log (HttpGet (km_nickserver_uri ?km4) [(''address'', ?A)] ''ca.crt'') ?w)
      \<and> fst (get_key ?km4 ?A OpenPGPKey False True ?w) = Inl (KeyNotFound ?A)"
    using fetch_failures_propagate [OF ca(4), of ?A ?w] h4 h5 by blast
  have c5: "fetch_keys_from_server ?km5 ?A ?w
      = (Inl (KeyError ''content-type''),
         log (HttpGet (km_nickserver_uri ?km5) [(''address'', ?A)] ''ca.crt'') ?w)"
    using fetch_failures_propagate [OF ca(5), of ?A ?w] h6 by blast
  show ?thesis
    using c1 c2 c3 c4 c5 by (simp add: json_response_def)
qed

text \<open>
  The claim as stated speaks of every status outside 200 to 299. A response with status 300
  (Multiple Choices, which comes with a body and, having no \<^verbatim>\<open>Location\<close> header, is not
  followed as a redirect) and a JSON body is not a failure for \<^verbatim>\<open>raise_for_status\<close>: the
  fetch returns normally and imports the key of the body.
\<close>

theorem fetch_accepts_status_300:
  "fetch_keys_from_server
      (example_km None (Some ''ca.crt'')
         (json_response 300 (JObject [(''openpgp'', JString ''bob@leap.se:pub'')])))
      ''bob@leap.se'' (example_world [])
     = (Inr (),
        \<lparr>store = [pubkey_of ''bob@leap.se''],
          trace = [HttpGet ''https://nicknym.leap.se'' [(''address'', ''bob@leap.se'')] ''ca.crt'',
                   SchemePutAsciiKey OpenPGPKey (JString ''bob@leap.se:pub'')]\<rparr>)"
  by (simp add: fetch_keys_from_server_def KeyManager_get_def example_requests_def
      json_response_def raise_for_status_def OPENPGP_KEY_def Let_def log_def example_world_def
      example_scheme_def example_put_ascii_key_def pubkey_of_def)

text \<open>
  Claim C10. What \<^verbatim>\<open>_fetch_keys_from_server\<close> imports is the \<^verbatim>\<open>openpgp\<close> entry of the
  response and nothing else: the address goes into the data of the GET request and is not used
  again, \<^verbatim>\<open>put_ascii_key\<close> is called with the entry alone, and the store after the fetch is
  the store that \<^verbatim>\<open>put_ascii_key\<close> returns for that entry. Two fetches from the same world,
  for any two addresses whose responses carry the same entry, end in the same store with the
  same outcome; the key is not compared with the address asked for.
\<close>

theorem fetch_imports_response_entry:
  assumes "km_ca_cert_path km = Some ca"
    and "map_of (km_wrapper_map km) OpenPGPKey = Some sch"
    and "http_get (km_fetcher km) (km_nickserver_uri km) [(''address'', A)] ca = Inr res"
    and "accepted res" and "body res = Some (JObject kvs)" and "map_of kvs ''openpgp'' = Some m"
    and "http_get (km_fetcher km) (km_nickserver_uri km) [(''address'', B)] ca = Inr res'"
    and "accepted res'" and "body res' = Some (JObject kvs')"
    and "map_of kvs' ''openpgp'' = Some m"
  shows "new_events w (snd (fetch_keys_from_server km A w))
           = [HttpGet (km_nickserver_uri km) [(''address'', A)] ca, SchemePutAsciiKey OpenPGPKey m]
       \<and> store (snd (fetch_keys_from_server km A w)) = snd (scheme_put_ascii_key sch (store w) m)
       \<and> fst (fetch_keys_from_server km A w) = fst (scheme_put_ascii_key sch (store w) m)
       \<and> store (snd (fetch_keys_from_server km B w)) = store (snd (fetch_keys_from_server km A w))
       \<and> fst (fetch_keys_from_server km B w) = fst (fetch_keys_from_server km A w)"
proof -
  have gA: "KeyManager_get km (km_nickserver_uri km) [(''address'', A)] w
      = (Inr res, log (HttpGet (km_nickserver_uri km) [(''address'', A)] ca) w)"
    using KeyManager_get_accepted [OF assms(1) assms(3) assms(4)] .
  have gB: "KeyManager_get km (km_nickserver_uri km) [(''address'', B)] w
      = (Inr res', log (HttpGet (km_nickserver_uri km) [(''address'', B)] ca) w)"
    using KeyManager_get_accepted [OF assms(1) assms(7) assms(8)] .
  show ?thesis
    using fetch_after_get [OF gA assms(5)] fetch_after_get [OF gB assms(9)] assms(2,6,10)
    by (simp add: log_def new_events_def)
qed

theorem fetch_imports_response_entry_witness:
  "new_events (example_world [])
      (snd (fetch_keys_from_server
         (example_km None (Some ''ca.crt'')
            (json_response 200 (JObject [(''openpgp'', JString ''alice@leap.se:pub'')])))
         ''bob@leap.se'' (example_world [])))
     = [HttpGet ''https://nicknym.leap.se'' [(''address'', ''bob@leap.se'')] ''ca.crt'',
        SchemePutAsciiKey OpenPGPKey (JString ''alice@leap.se:pub'')]
   \<and> store (snd (fetch_keys_from_server
         (example_km None (Some ''ca.crt'')
            (json_response 200 (JObject [(''openpgp'', JString ''alice@leap.se:pub'')])))
         ''bob@leap.se'' (example_world [])))
     = [pubkey_of ''alice@leap.se'']
   \<and> store (snd (fetch_keys_from_server
         (example_km None (Some ''ca.crt'')
            (json_response 200 (JObject [(''openpgp'', JString ''alice@leap.se:pub'')])))
         ''carol@leap.se'' (example_world [])))
     = [pubkey_of ''alice@leap.se'']"
proof -
  let ?j = "JObject [(''openpgp'', JString ''alice@leap.se:pub'')]"
  let ?km = "example_km None (Some ''ca.crt'') (json_response 200 ?j)"
  let ?w = "example_world []"
  have ca: "km_ca_cert_path ?km = Some ''ca.crt''"
    by simp
  have reg: "map_of (km_wrapper_map ?km) OpenPGPKey = Some example_scheme"
    by simp
  have gA: "http_get (km_fetcher ?km) (km_nickserver_uri ?km) [(''address'', ''bob@leap.se'')]
      ''ca.crt'' = Inr (json_response 200 ?j)"
    by (simp add: example_requests_def)
  have gB: "http_get (km_fetcher ?km) (km_nickserver_uri ?km) [(''address'', ''carol@leap.se'')]
      ''ca.crt'' = Inr (json_response 200 ?j)"
    by (simp add: example_requests_def)
  have acc: "accepted (json_response 200 ?j)"
    by (simp add: accepted_def json_response_def raise_for_status_def)
  have bd: "body (json_response 200 ?j)
      = Some (JObject [(''openpgp'', JString ''alice@leap.se:pub'')])"
    by (simp add: json_response_def)
  have ent: "map_of [(''openpgp'', JString ''alice@leap.se:pub'')] ''openpgp''
      = Some (JString ''alice@leap.se:pub'')"
    by simp
  have put: "snd (scheme_put_ascii_key example_scheme (store ?w) (JString ''alice@leap.se:pub''))
      = [pubkey_of ''alice@leap.se'']"
    by (simp add: example_scheme_def example_put_ascii_key_def example_world_def pubkey_of_def)
  show ?thesis
    using fetch_imports_response_entry [OF ca reg gA acc bd ent gB acc bd ent, of ?w] put
    by simp
qed

section \<open>The remote fallback of \<^verbatim>\<open>get_key\<close>\<close>

text \<open>
  Claim C1, as the code has it. Let the key type be registered and let the lookup of the public
  key raise \<^verbatim>\<open>KeyNotFound\<close>. Then \<^verbatim>\<open>get_key\<close> with \<^verbatim>\<open>private=False\<close> and
  \<^verbatim>\<open>fetch_remote=True\<close> calls \<^verbatim>\<open>_fetch_keys_from_server\<close> once, after that lookup. When the
  fetch returns normally, the calls made are, in this order: the lookup, exactly one GET to the
  directory with the address, at most one import of the entry found (the store is otherwise
  unchanged), and the retry of the lookup with \<^verbatim>\<open>private=False\<close>, whose outcome on the new
  store (the key, or the exception of the lookup) is the outcome of \<^verbatim>\<open>get_key\<close>. When the
  fetch raises, its exception leaves \<^verbatim>\<open>get_key\<close>: at most one network call has been made and
  the lookup is not retried.
\<close>

theorem get_key_remote_fallback:
  assumes "map_of (km_wrapper_map km) T = Some sch"
    and "scheme_get_key sch (store w) A False = Inl (KeyNotFound x)"
  shows "(\<forall>u w2. fetch_keys_from_server km A (log (SchemeGetKey T A False) w) = (Inr u, w2) \<longrightarrow>
            get_key km A T False True w
              = (scheme_get_key sch (store w2) A False, log (SchemeGetKey T A False) w2)
          \<and> (\<exists>ca imp.
                new_events w (snd (get_key km A T False True w))
                  = [SchemeGetKey T A False,
                     HttpGet (km_nickserver_uri km) [(''address'', A)] ca]
                    @ imp @ [SchemeGetKey T A False]
              \<and> (imp = [] \<and> store w2 = store w
                 \<or> (\<exists>m sch'. imp = [SchemePutAsciiKey OpenPGPKey m]
                      \<and> map_of (km_wrapper_map km) OpenPGPKey = Some sch'
                      \<and> store w2 = snd (scheme_put_ascii_key sch' (store w) m)))))
       \<and> (\<forall>e w2. fetch_keys_from_server km A (log (SchemeGetKey T A False) w) = (Inl e, w2) \<longrightarrow>
            get_key km A T False True w = (Inl e, w2)
          \<and> length (network_calls (new_events w w2)) \<le> 1
          \<and> SchemeGetKey T A False \<notin> set (tl (new_events w w2)))"
proof (intro conjI allI impI)
  let ?w1 = "log (SchemeGetKey T A False) w"
  have st: "store ?w1 = store w" and tr: "trace ?w1 = trace w @ [SchemeGetKey T A False]"
    by (simp_all add: log_def)
  {
    fix u w2
    assume f: "fetch_keys_from_server km A ?w1 = (Inr u, w2)"
    show gk: "get_key km A T False True w
        = (scheme_get_key sch (store w2) A False, log (SchemeGetKey T A False) w2)"
      using assms f by (simp add: get_key_def Let_def st)
    from f have "km_ca_cert_path km \<noteq> None"
      using fetch_returns_ca [of km A ?w1 u] by simp
    then obtain ca where ca: "km_ca_cert_path km = Some ca"
      by blast
    show "\<exists>ca imp.
        new_events w (snd (get_key km A T False True w))
          = [SchemeGetKey T A False, HttpGet (km_nickserver_uri km) [(''address'', A)] ca]
            @ imp @ [SchemeGetKey T A False]
        \<and> (imp = [] \<and> store w2 = store w
           \<or> (\<exists>m sch'. imp = [SchemePutAsciiKey OpenPGPKey m]
                \<and> map_of (km_wrapper_map km) OpenPGPKey = Some sch'
                \<and> store w2 = snd (scheme_put_ascii_key sch' (store w) m)))"
      using fetch_effect [OF ca, of A ?w1] f
      by (auto simp add: gk new_events_def log_def)
  next
    fix e w2
    assume f: "fetch_keys_from_server km A ?w1 = (Inl e, w2)"
    show "get_key km A T False True w = (Inl e, w2)"
      using assms f by (simp add: get_key_def Let_def st)
    show "length (network_calls (new_events w w2)) \<le> 1"
    proof (cases "km_ca_cert_path km")
      case None
      then show ?thesis
        using f fetch_no_ca [of km A ?w1] by (simp add: new_events_def log_def)
    next
      case (Some ca)
      then show ?thesis
        using fetch_effect [OF Some, of A ?w1] f by (auto simp add: new_events_def log_def)
    qed
    show "SchemeGetKey T A False \<notin> set (tl (new_events w w2))"
    proof (cases "km_ca_cert_path km")
      case None
      then show ?thesis
        using f fetch_no_ca [of km A ?w1] by (simp add: new_events_def log_def)
    next
      case (Some ca)
      then show ?thesis
        using fetch_effect [OF Some, of A ?w1] f by (auto simp add: new_events_def log_def)
    qed
  }
qed

theorem get_key_remote_fallback_witness:
  "get_key (example_km None (Some ''ca.crt'')
        (json_response 200 (JObject [(''openpgp'', JString ''bob@leap.se:pub'')])))
      ''bob@leap.se'' OpenPGPKey False True (example_world [])
     = (Inr (pubkey_of ''bob@leap.se''),
        \<lparr>store = [pubkey_of ''bob@leap.se''],
          trace = [SchemeGetKey OpenPGPKey ''bob@leap.se'' False,
                   HttpGet ''https://nicknym.leap.se'' [(''address'', ''bob@leap.se'')] ''ca.crt'',
                   SchemePutAsciiKey OpenPGPKey (JString ''bob@leap.se:pub''),
                   SchemeGetKey OpenPGPKey ''bob@leap.se'' False]\<rparr>)
   \<and> get_key (example_km None (Some ''ca.crt'') (json_response 500 (JObject [])))
      ''bob@leap.se'' OpenPGPKey False True (example_world [])
     = (Inl (HTTPError 500),
        \<lparr>store = [],
          trace = [SchemeGetKey OpenPGPKey ''bob@leap.se'' False,
                   HttpGet ''https://nicknym.leap.se'' [(''address'', ''bob@leap.se'')]
                     ''ca.crt'']\<rparr>)"
proof -
  let ?A = "''bob@leap.se''"
  let ?w = "example_world []"
  let ?km1 = "example_km None (Some ''ca.crt'')
        (json_response 200 (JObject [(''openpgp'', JString ''bob@leap.se:pub'')]))"
  let ?km2 = "example_km None (Some ''ca.crt'') (json_response 500 (JObject []))"
  let ?w1 = "\<lparr>store = [pubkey_of ''bob@leap.se''],
          trace = [SchemeGetKey OpenPGPKey ''bob@leap.se'' False,
                   HttpGet ''https://nicknym.leap.se'' [(''address'', ''bob@leap.se'')] ''ca.crt'',
                   SchemePutAsciiKey OpenPGPKey (JString ''bob@leap.se:pub'')]\<rparr>"
  let ?w2 = "\<lparr>store = ([] :: EncryptionKey list),
          trace = [SchemeGetKey OpenPGPKey ''bob@leap.se'' False,
                   HttpGet ''https://nicknym.leap.se'' [(''address'', ''bob@leap.se'')]
                     ''ca.crt'']\<rparr>"
  have reg: "map_of (km_wrapper_map ?km1) OpenPGPKey = Some example_scheme"
    "map_of (km_wrapper_map ?km2) OpenPGPKey = Some example_scheme"
    by simp_all
  have miss: "scheme_get_key example_scheme (store ?w) ?A False = Inl (KeyNotFound ?A)"
    by (simp add: example_get_key_def example_world_def)
  have f1: "fetch_keys_from_server ?km1 ?A (log (SchemeGetKey OpenPGPKey ?A False) ?w)
      = (Inr (), ?w1)"
    using example_fetch_found [of "[SchemeGetKey OpenPGPKey ?A False]"]
    by (simp add: log_def example_world_def)
  have f2: "fetch_keys_from_server ?km2 ?A (log (SchemeGetKey OpenPGPKey ?A False) ?w)
      = (Inl (HTTPError 500), ?w2)"
    using example_fetch_status [of 500 None "JObject []" ?A "[]"
        "[SchemeGetKey OpenPGPKey ?A False]"]
    by (simp add: log_def example_world_def)
  have retry: "scheme_get_key example_scheme (store ?w1) ?A False = Inr (pubkey_of ?A)"
    by (simp add: example_get_key_def pubkey_of_def)
  have c1: "get_key ?km1 ?A OpenPGPKey False True ?w
      = (scheme_get_key example_scheme (store ?w1) ?A False,
         log (SchemeGetKey OpenPGPKey ?A False) ?w1)"
    using get_key_remote_fallback [OF reg(1) miss] f1 by blast
  have c2: "get_key ?km2 ?A OpenPGPKey False True ?w = (Inl (HTTPError 500), ?w2)"
    using get_key_remote_fallback [OF reg(2) miss] f2 by blast
  show ?thesis
    unfolding c1 c2 retry by (simp add: log_def)
qed

text \<open>
  The claim as stated promises the retry and a key or \<^verbatim>\<open>KeyNotFound\<close> for every local miss.
  When the directory answers with status 500, the outcome is the \<^verbatim>\<open>HTTPError\<close> of the fetch,
  and the log ends with the GET: there is no retry.
\<close>

theorem get_key_fetch_failure_no_retry:
  "get_key (example_km None (Some ''ca.crt'') (json_response 500 (JObject [])))
      ''bob@leap.se'' OpenPGPKey False True (example_world [])
     = (Inl (HTTPError 500),
        \<lparr>store = [],
          trace = [SchemeGetKey OpenPGPKey ''bob@leap.se'' False,
                   HttpGet ''https://nicknym.leap.se'' [(''address'', ''bob@leap.se'')]
                     ''ca.crt'']\<rparr>)"
  using example_fetch_status [of 500 None "JObject []" "''bob@leap.se''" "[]"
        "[SchemeGetKey OpenPGPKey ''bob@leap.se'' False]"]
  by (simp add: get_key_def Let_def log_def example_world_def example_get_key_def)

section \<open>Properties of \<^verbatim>\<open>refresh_keys\<close>\<close>

text \<open>
  Claim C4, as the code has it. Let \<^verbatim>\<open>get_all_keys_in_local_db(private=False)\<close> return the
  public keys of the local store, and let the iteration enumerate the set of their addresses
  without repetition. Then \<^verbatim>\<open>refresh_keys\<close> sends at most one GET for each of these addresses
  other than the Key Manager's own, and none for any other address, however many keys share an
  address. When \<^verbatim>\<open>refresh_keys\<close> returns normally, it has sent exactly one GET for each such
  address, and these are all its network calls. When every public key of the store is bound
  to the Key Manager's own address, it returns normally without any network call. A fetch
  that raises ends the refresh: when the fetches for the addresses before it in the iteration
  have returned and the fetch for an address raises, \<^verbatim>\<open>refresh_keys\<close> raises that exception
  in the world that the failing fetch left, and no GET has been sent for any address after it;
  and \<^verbatim>\<open>refresh_keys\<close> raises only in this way.
\<close>

theorem refresh_keys_fetches:
  assumes "set_iteration iter (map address keys)"
    and "get_all_keys_in_local_db K km False w = (Inr keys, w1)"
  shows "(\<forall>a. count_list (get_requests (new_events w (snd (refresh_keys iter K km w))))
                [(''address'', a)]
              \<le> (if a \<in> set (map address keys) \<and> a \<noteq> km_address km then 1 else 0))
       \<and> (fst (refresh_keys iter K km w) = Inr () \<longrightarrow>
            (\<forall>a. count_list (get_requests (new_events w (snd (refresh_keys iter K km w))))
                   [(''address'', a)]
                 = (if a \<in> set (map address keys) \<and> a \<noteq> km_address km then 1 else 0))
          \<and> length (network_calls (new_events w (snd (refresh_keys iter K km w))))
              = card (set (map address keys) - {km_address km}))
       \<and> (set (map address keys) \<subseteq> {km_address km} \<longrightarrow>
            fst (refresh_keys iter K km w) = Inr ()
          \<and> network_calls (new_events w (snd (refresh_keys iter K km w))) = [])
       \<and> (\<forall>pre a post wa e wb.
             filter (\<lambda>a. a \<noteq> km_address km) (iter (map address keys)) = pre @ a # post
             \<and> refresh_loop km pre w1 = (Inr (), wa)
             \<and> fetch_keys_from_server km a wa = (Inl e, wb) \<longrightarrow>
            refresh_keys iter K km w = (Inl e, wb)
          \<and> (\<forall>b. b \<in> set post \<longrightarrow>
                count_list (get_requests (new_events w wb)) [(''address'', b)] = 0))
       \<and> (\<forall>e. fst (refresh_keys iter K km w) = Inl e \<longrightarrow>
            (\<exists>pre a post.
                filter (\<lambda>a. a \<noteq> km_address km) (iter (map address keys)) = pre @ a # post
              \<and> fst (refresh_loop km pre w1) = Inr ()
              \<and> fetch_keys_from_server km a (snd (refresh_loop km pre w1))
                  = (Inl e, snd (refresh_keys iter K km w))
              \<and> (\<forall>b. b \<in> set post \<longrightarrow>
                    count_list (get_requests (new_events w (snd (refresh_keys iter K km w))))
                      [(''address'', b)] = 0)))"
proof -
  let ?xs = "iter (map address keys)"
  let ?own = "km_address km"
  let ?q = "SoledadGetFromIndex (TAGS_PRIVATE_INDEX K) [KEYMANAGER_KEY_TAG K, ''0'']"
  have dist: "distinct ?xs" and elems: "set ?xs = set (map address keys)"
    using assms(1) by (simp_all add: set_iteration_def)
  have w1: "trace w1 = trace w @ [?q]"
    using get_all_keys_world [of K km False w] assms(2) by (simp add: log_def)
  have rk: "refresh_keys iter K km w = refresh_loop km ?xs w1"
    using assms(2) by (simp add: refresh_keys_def)
  obtain evs fetched rest where loop:
    "trace (snd (refresh_loop km ?xs w1)) = trace w1 @ evs"
    "filter (\<lambda>a. a \<noteq> ?own) ?xs = fetched @ rest"
    "get_requests evs = map (\<lambda>a. [(''address'', a)]) fetched"
    "length (network_calls evs) = length fetched"
    "fst (refresh_loop km ?xs w1) = Inr () \<longrightarrow> rest = []"
    using refresh_loop_events [of km ?xs w1] by blast
  have new: "new_events w (snd (refresh_keys iter K km w)) = ?q # evs"
    using loop(1) w1 by (simp add: rk new_events_def)
  have reqs: "get_requests (new_events w (snd (refresh_keys iter K km w)))
      = map (\<lambda>a. [(''address'', a)]) fetched"
    using loop(3) by (simp add: new)
  have net: "network_calls (new_events w (snd (refresh_keys iter K km w))) = network_calls evs"
    by (simp add: new)
  have "distinct (filter (\<lambda>a. a \<noteq> ?own) ?xs)"
    using dist by simp
  then have df: "distinct fetched"
    by (simp add: loop(2))
  have sub: "set fetched \<subseteq> set (map address keys) - {?own}"
  proof -
    have "set fetched \<subseteq> set (filter (\<lambda>a. a \<noteq> ?own) ?xs)"
      using loop(2) by simp
    then show ?thesis
      using elems by auto
  qed
  have cnt: "\<And>a. count_list (get_requests (new_events w (snd (refresh_keys iter K km w))))
      [(''address'', a)] = (if a \<in> set fetched then 1 else 0)"
    using count_list_distinct [OF df] by (simp add: reqs count_list_requests)
  have part1: "\<forall>a. count_list (get_requests (new_events w (snd (refresh_keys iter K km w))))
      [(''address'', a)]
      \<le> (if a \<in> set (map address keys) \<and> a \<noteq> ?own then 1 else 0)"
    using sub by (auto simp add: cnt)
  have part2: "fst (refresh_keys iter K km w) = Inr () \<longrightarrow>
      (\<forall>a. count_list (get_requests (new_events w (snd (refresh_keys iter K km w))))
             [(''address'', a)]
           = (if a \<in> set (map address keys) \<and> a \<noteq> ?own then 1 else 0))
      \<and> length (network_calls (new_events w (snd (refresh_keys iter K km w))))
          = card (set (map address keys) - {?own})"
  proof
    assume ok: "fst (refresh_keys iter K km w) = Inr ()"
    then have "rest = []"
      using loop(5) by (simp add: rk)
    then have all: "filter (\<lambda>a. a \<noteq> ?own) ?xs = fetched"
      using loop(2) by simp
    have "set fetched = set (filter (\<lambda>a. a \<noteq> ?own) ?xs)"
      by (simp add: all)
    then have eq: "set fetched = set (map address keys) - {?own}"
      using elems by auto
    have "length fetched = card (set fetched)"
      using df by (simp add: distinct_card)
    then have len: "length (network_calls (new_events w (snd (refresh_keys iter K km w))))
        = card (set (map address keys) - {?own})"
      using loop(4) eq by (simp add: net)
    have "\<forall>a. count_list (get_requests (new_events w (snd (refresh_keys iter K km w))))
             [(''address'', a)]
           = (if a \<in> set (map address keys) \<and> a \<noteq> ?own then 1 else 0)"
      using eq by (auto simp add: cnt)
    then show "(\<forall>a. count_list (get_requests (new_events w (snd (refresh_keys iter K km w))))
             [(''address'', a)]
           = (if a \<in> set (map address keys) \<and> a \<noteq> ?own then 1 else 0))
      \<and> length (network_calls (new_events w (snd (refresh_keys iter K km w))))
          = card (set (map address keys) - {?own})"
      using len by (rule conjI)
  qed
  have part3: "set (map address keys) \<subseteq> {?own} \<longrightarrow>
      fst (refresh_keys iter K km w) = Inr ()
      \<and> network_calls (new_events w (snd (refresh_keys iter K km w))) = []"
  proof
    assume own: "set (map address keys) \<subseteq> {?own}"
    have none: "filter (\<lambda>a. a \<noteq> ?own) ?xs = []"
      using own elems by (auto simp add: filter_empty_conv)
    have skip: "\<And>as w0. filter (\<lambda>a. a \<noteq> ?own) as = [] \<Longrightarrow> refresh_loop km as w0 = (Inr (), w0)"
    proof -
      fix as :: "address list" and w0 :: "'a world"
      show "filter (\<lambda>a. a \<noteq> ?own) as = [] \<Longrightarrow> refresh_loop km as w0 = (Inr (), w0)"
        by (induction as) (simp_all split: if_splits)
    qed
    have res: "refresh_keys iter K km w = (Inr (), w1)"
      using skip [OF none] by (simp add: rk)
    show "fst (refresh_keys iter K km w) = Inr ()
      \<and> network_calls (new_events w (snd (refresh_keys iter K km w))) = []"
      using w1 by (simp add: res new_events_def)
  qed
  have part4: "\<forall>pre a post wa e wb.
      filter (\<lambda>a. a \<noteq> km_address km) (iter (map address keys)) = pre @ a # post
      \<and> refresh_loop km pre w1 = (Inr (), wa)
      \<and> fetch_keys_from_server km a wa = (Inl e, wb) \<longrightarrow>
      refresh_keys iter K km w = (Inl e, wb)
      \<and> (\<forall>b. b \<in> set post \<longrightarrow>
            count_list (get_requests (new_events w wb)) [(''address'', b)] = 0)"
    using refresh_keys_stops [OF assms] by blast
  have part5: "\<forall>e. fst (refresh_keys iter K km w) = Inl e \<longrightarrow>
      (\<exists>pre a post.
          filter (\<lambda>a. a \<noteq> km_address km) (iter (map address keys)) = pre @ a # post
        \<and> fst (refresh_loop km pre w1) = Inr ()
        \<and> fetch_keys_from_server km a (snd (refresh_loop km pre w1))
            = (Inl e, snd (refresh_keys iter K km w))
        \<and> (\<forall>b. b \<in> set post \<longrightarrow>
              count_list (get_requests (new_events w (snd (refresh_keys iter K km w))))
                [(''address'', b)] = 0))"
    using refresh_keys_failure [OF assms] by blast
  show ?thesis
    by (intro conjI part1 part2 part3 part4 part5)
qed

theorem refresh_keys_fetches_witness:
  "count_list (get_requests (new_events
        (example_world [pubkey_of ''alice@leap.se'', pubkey_of ''me@leap.se'',
           privkey_of ''me@leap.se'', pubkey_of ''alice@leap.se'', pubkey_of ''bob@leap.se''])
        (snd (refresh_keys remdups example_keys
           (example_km None (Some ''ca.crt'') (json_response 200 (JObject [])))
           (example_world [pubkey_of ''alice@leap.se'', pubkey_of ''me@leap.se'',
              privkey_of ''me@leap.se'', pubkey_of ''alice@leap.se'',
              pubkey_of ''bob@leap.se''])))))
      [(''address'', ''alice@leap.se'')] = 1
   \<and> count_list (get_requests (new_events
        (example_world [pubkey_of ''alice@leap.se'', pubkey_of ''me@leap.se'',
           privkey_of ''me@leap.se'', pubkey_of ''alice@leap.se'', pubkey_of ''bob@leap.se''])
        (snd (refresh_keys remdups example_keys
           (example_km None (Some ''ca.crt'') (json_response 200 (JObject [])))
           (example_world [pubkey_of ''alice@leap.se'', pubkey_of ''me@leap.se'',
              privkey_of ''me@leap.se'', pubkey_of ''alice@leap.se'',
              pubkey_of ''bob@leap.se''])))))
      [(''address'', ''me@leap.se'')] = 0
   \<and> fst (refresh_keys remdups example_keys
        (example_km None (Some ''ca.crt'') (json_response 200 (JObject [])))
        (example_world [pubkey_of ''me@leap.se'', privkey_of ''me@leap.se''])) = Inr ()
   \<and> network_calls (new_events
        (example_world [pubkey_of ''me@leap.se'', privkey_of ''me@leap.se''])
        (snd (refresh_keys remdups example_keys
           (example_km None (Some ''ca.crt'') (json_response 200 (JObject [])))
           (example_world [pubkey_of ''me@leap.se'', privkey_of ''me@leap.se''])))) = []
   \<and> refresh_keys remdups example_keys
        (example_km None (Some ''ca.crt'') (json_response 500 (JObject [])))
        (example_world [pubkey_of ''alice@leap.se'', pubkey_of ''bob@leap.se''])
     = (Inl (HTTPError 500),
        \<lparr>store = [pubkey_of ''alice@leap.se'', pubkey_of ''bob@leap.se''],
          trace = [SoledadGetFromIndex ''by-tags-and-private'' [''keymanager-key'', ''0''],
                   HttpGet ''https://nicknym.leap.se'' [(''address'', ''alice@leap.se'')]
                     ''ca.crt'']\<rparr>)
   \<and> count_list (get_requests (new_events
        (example_world [pubkey_of ''alice@leap.se'', pubkey_of ''bob@leap.se''])
        \<lparr>store = [pubkey_of ''alice@leap.se'', pubkey_of ''bob@leap.se''],
          trace = [SoledadGetFromIndex ''by-tags-and-private'' [''keymanager-key'', ''0''],
                   HttpGet ''https://nicknym.leap.se'' [(''address'', ''alice@leap.se'')]
                     ''ca.crt'']\<rparr>))
      [(''address'', ''bob@leap.se'')] = 0
   \<and> (\<exists>pre a post.
        filter (\<lambda>a. a \<noteq> ''me@leap.se'') [''alice@leap.se'', ''bob@leap.se'']
          = pre @ a # post
      \<and> fetch_keys_from_server
           (example_km None (Some ''ca.crt'') (json_response 500 (JObject []))) a
           (snd (refresh_loop
              (example_km None (Some ''ca.crt'') (json_response 500 (JObject []))) pre
              \<lparr>store = [pubkey_of ''alice@leap.se'', pubkey_of ''bob@leap.se''],
                trace = [SoledadGetFromIndex ''by-tags-and-private''
                           [''keymanager-key'', ''0'']]\<rparr>))
          = (Inl (HTTPError 500),
             snd (refresh_keys remdups example_keys
                (example_km None (Some ''ca.crt'') (json_response 500 (JObject [])))
                (example_world [pubkey_of ''alice@leap.se'', pubkey_of ''bob@leap.se'']))))"
proof -
  let ?km5 = "example_km None (Some ''ca.crt'') (json_response 500 (JObject []))"
  let ?ks5 = "[pubkey_of ''alice@leap.se'', pubkey_of ''bob@leap.se'']"
  let ?w5 = "example_world ?ks5"
  let ?wa = "\<lparr>store = ?ks5,
      trace = [SoledadGetFromIndex ''by-tags-and-private'' [''keymanager-key'', ''0'']]\<rparr>"
  let ?wb = "\<lparr>store = ?ks5,
      trace = [SoledadGetFromIndex ''by-tags-and-private'' [''keymanager-key'', ''0''],
               HttpGet ''https://nicknym.leap.se'' [(''address'', ''alice@leap.se'')]
                 ''ca.crt'']\<rparr>"
  have it5: "set_iteration remdups (map address ?ks5)"
    by (rule set_iteration_remdups)
  have order5: "remdups (map address ?ks5) = [''alice@leap.se'', ''bob@leap.se'']"
    by simp
  have split5: "filter (\<lambda>a. a \<noteq> km_address ?km5) (remdups (map address ?ks5))
      = [] @ ''alice@leap.se'' # [''bob@leap.se'']"
    by simp
  have pre5: "refresh_loop ?km5 [] ?wa = (Inr (), ?wa)"
    by simp
  have fail5: "fetch_keys_from_server ?km5 ''alice@leap.se'' ?wa = (Inl (HTTPError 500), ?wb)"
    using example_fetch_status [of 500 None "JObject []" "''alice@leap.se''" ?ks5
        "[SoledadGetFromIndex ''by-tags-and-private'' [''keymanager-key'', ''0'']]"]
    by simp
  have bob5: "''bob@leap.se'' \<in> set [''bob@leap.se'']"
    by simp
  have c5: "refresh_keys remdups example_keys ?km5 ?w5 = (Inl (HTTPError 500), ?wb)
      \<and> count_list (get_requests (new_events ?w5 ?wb)) [(''address'', ''bob@leap.se'')] = 0"
    using refresh_keys_fetches [OF it5 example_all_keys_2, of None "Some ''ca.crt''"
        "json_response 500 (JObject [])"] split5 pre5 fail5 bob5
    by blast
  then have failed5: "fst (refresh_keys remdups example_keys ?km5 ?w5) = Inl (HTTPError 500)"
    by simp
  have "\<exists>pre a post.
        filter (\<lambda>a. a \<noteq> km_address ?km5) (remdups (map address ?ks5)) = pre @ a # post
      \<and> fst (refresh_loop ?km5 pre ?wa) = Inr ()
      \<and> fetch_keys_from_server ?km5 a (snd (refresh_loop ?km5 pre ?wa))
          = (Inl (HTTPError 500), snd (refresh_keys remdups example_keys ?km5 ?w5))
      \<and> (\<forall>b. b \<in> set post \<longrightarrow>
            count_list (get_requests (new_events ?w5
                (snd (refresh_keys remdups example_keys ?km5 ?w5))))
              [(''address'', b)] = 0)"
    using refresh_keys_fetches [OF it5 example_all_keys_2, of None "Some ''ca.crt''"
        "json_response 500 (JObject [])"] failed5
    by blast
  then have c6: "\<exists>pre a post.
        filter (\<lambda>a. a \<noteq> ''me@leap.se'') [''alice@leap.se'', ''bob@leap.se'']
          = pre @ a # post
      \<and> fetch_keys_from_server ?km5 a (snd (refresh_loop ?km5 pre ?wa))
          = (Inl (HTTPError 500), snd (refresh_keys remdups example_keys ?km5 ?w5))"
    unfolding order5 by (simp only: example_config) blast
  let ?km = "example_km None (Some ''ca.crt'') (json_response 200 (JObject []))"
  let ?w = "example_world [pubkey_of ''alice@leap.se'', pubkey_of ''me@leap.se'',
      privkey_of ''me@leap.se'', pubkey_of ''alice@leap.se'', pubkey_of ''bob@leap.se'']"
  let ?keys = "[pubkey_of ''alice@leap.se'', pubkey_of ''me@leap.se'', pubkey_of ''alice@leap.se'',
      pubkey_of ''bob@leap.se'']"
  let ?w3 = "example_world [pubkey_of ''me@leap.se'', privkey_of ''me@leap.se'']"
  have addrs: "map address ?keys
      = [''alice@leap.se'', ''me@leap.se'', ''alice@leap.se'', ''bob@leap.se'']"
    by (simp add: pubkey_of_def)
  have it: "set_iteration remdups (map address ?keys)"
    by (rule set_iteration_remdups)
  have it3: "set_iteration remdups (map address [pubkey_of ''me@leap.se''])"
    by (rule set_iteration_remdups)
  have ok: "fst (refresh_keys remdups example_keys ?km ?w) = Inr ()"
    unfolding refresh_keys_def example_all_keys_4
    by (simp add: log_def example_world_def example_fetch_empty)
  have own3: "set (map address [pubkey_of ''me@leap.se'']) \<subseteq> {km_address ?km}"
    by (simp add: pubkey_of_def)
  have in1: "''alice@leap.se'' \<in> set (map address ?keys) \<and> ''alice@leap.se'' \<noteq> km_address ?km"
    by (simp add: addrs)
  have in2: "\<not> (''me@leap.se'' \<in> set (map address ?keys) \<and> ''me@leap.se'' \<noteq> km_address ?km)"
    by simp
  have t: "\<forall>a. count_list (get_requests (new_events ?w (snd (refresh_keys remdups example_keys ?km ?w))))
                   [(''address'', a)]
                 = (if a \<in> set (map address ?keys) \<and> a \<noteq> km_address ?km then 1 else 0)"
    using refresh_keys_fetches [OF it example_all_keys_4, of None "Some ''ca.crt''"
        "json_response 200 (JObject [])"] ok
    by blast
  have c1: "count_list (get_requests (new_events ?w (snd (refresh_keys remdups example_keys ?km ?w))))
      [(''address'', ''alice@leap.se'')] = 1"
    using t in1 by simp
  have c2: "count_list (get_requests (new_events ?w (snd (refresh_keys remdups example_keys ?km ?w))))
      [(''address'', ''me@leap.se'')] = 0"
    using t in2 by simp
  have c3: "fst (refresh_keys remdups example_keys ?km ?w3) = Inr ()
      \<and> network_calls (new_events ?w3 (snd (refresh_keys remdups example_keys ?km ?w3))) = []"
    using refresh_keys_fetches [OF it3 example_all_keys_own, of None "Some ''ca.crt''"
        "json_response 200 (JObject [])"] own3
    by blast
  show ?thesis
    using c1 c2 c3 c5 c6 by (intro conjI) simp_all
qed

text \<open>
  The claim as stated promises one fetch for every remaining address. With public keys for
  two other addresses in the store and a directory that answers with status 500, the first
  fetch raises and ends the loop: one GET is sent, and the second address is never fetched.
\<close>

theorem refresh_keys_aborts_on_failure:
  "refresh_keys remdups example_keys
      (example_km None (Some ''ca.crt'') (json_response 500 (JObject [])))
      (example_world [pubkey_of ''alice@leap.se'', pubkey_of ''bob@leap.se''])
     = (Inl (HTTPError 500),
        \<lparr>store = [pubkey_of ''alice@leap.se'', pubkey_of ''bob@leap.se''],
          trace = [SoledadGetFromIndex ''by-tags-and-private'' [''keymanager-key'', ''0''],
                   HttpGet ''https://nicknym.leap.se'' [(''address'', ''alice@leap.se'')]
                     ''ca.crt'']\<rparr>)"
proof -
  have keys: "get_all_keys_in_local_db example_keys
      (example_km None (Some ''ca.crt'') (json_response 500 (JObject []))) False
      (example_world [pubkey_of ''alice@leap.se'', pubkey_of ''bob@leap.se''])
     = (Inr [pubkey_of ''alice@leap.se'', pubkey_of ''bob@leap.se''],
        \<lparr>store = [pubkey_of ''alice@leap.se'', pubkey_of ''bob@leap.se''],
          trace = [SoledadGetFromIndex ''by-tags-and-private'' [''keymanager-key'', ''0'']]\<rparr>)"
    by (simp add: get_all_keys_in_local_db_def example_keys_def example_soledad_def
      example_km_def KeyManager_init_def example_world_def pubkey_of_def privkey_of_def
      key_class_from_type_def dict_getitem_def Let_def log_def)
  have addrs: "map address [pubkey_of ''alice@leap.se'', pubkey_of ''bob@leap.se'']
      = [''alice@leap.se'', ''bob@leap.se'']"
    by (simp add: pubkey_of_def)
  show ?thesis
    by (simp add: refresh_keys_def keys addrs example_fetch_status)
qed

section \<open>Failing preconditions\<close>




end
